theory Spec2Isabelle
  imports Main
begin

section \<open>Promises\<close>

text \<open>
  Both source files are written with \<^verbatim>\<open>async\<close>/\<^verbatim>\<open>await\<close>. An awaited call either
  resolves with a value or rejects, and a rejection is an exception at the \<^verbatim>\<open>await\<close>.
  What an external call does is not decided by the program, so it is an argument of the
  model (an environment record), and every rejection is a branch of the model.
\<close>

datatype 'a settled = Rejects | Resolves 'a

section \<open>The upload screen: \<^verbatim>\<open>app/(tabs)/index.tsx\<close>\<close>

definition BACKEND_UPLOAD_URL :: string where
  "BACKEND_UPLOAD_URL = ''http://192.168.0.153:3000/upload-receipt''"

text \<open>\<^verbatim>\<open>uri.split("/")\<close>: JavaScript's split on a one-character separator. The result is
  never the empty array; the empty string splits into one empty segment.\<close>

fun split_on :: "char \<Rightarrow> string \<Rightarrow> string list" where
  "split_on c [] = [[]]"
| "split_on c (x # xs) =
     (if x = c then [] # split_on c xs
      else (case split_on c xs of
              [] \<Rightarrow> [[x]]
            | w # ws \<Rightarrow> (x # w) # ws))"

text \<open>\<^verbatim>\<open>Array.prototype.pop\<close> read for its value: \<^verbatim>\<open>undefined\<close> on the empty array.\<close>

definition pop :: "'a list \<Rightarrow> 'a option" where
  "pop xs = (if xs = [] then None else Some (last xs))"

text \<open>The decimal digits of a number, for the template string with \<^verbatim>\<open>Date.now()\<close>.\<close>

fun decimal :: "nat \<Rightarrow> string" where
  "decimal n =
     (if n < 10 then [char_of (48 + n)]
      else decimal (n div 10) @ [char_of (48 + n mod 10)])"

declare decimal.simps [simp del]

text \<open>\<^verbatim>\<open>const filename = uri.split("/").pop() ?? `receipt_${Date.now()}.jpg`\<close>\<close>

definition filename_of :: "nat \<Rightarrow> string \<Rightarrow> string" where
  "filename_of now uri =
     (case pop (split_on CHR ''/'' uri) of
        Some name \<Rightarrow> name
      | None \<Rightarrow> ''receipt_'' @ decimal now @ ''.jpg'')"

text \<open>The request handed to \<^verbatim>\<open>fetch\<close>: the URL, the method, the header and the one
  form-data field \<^verbatim>\<open>file\<close>.\<close>

record upload_request =
  req_url :: string
  req_method :: string
  req_content_type :: string
  file_uri :: string
  file_name :: string
  file_type :: string

definition upload_request_for :: "string \<Rightarrow> string \<Rightarrow> upload_request" where
  "upload_request_for uri filename =
     \<lparr>req_url = BACKEND_UPLOAD_URL, req_method = ''POST'',
      req_content_type = ''multipart/form-data'',
      file_uri = uri, file_name = filename, file_type = ''image/jpeg''\<rparr>"

text \<open>\<^verbatim>\<open>response.ok\<close> of the Fetch API: the status is in the range 200 to 299.\<close>

definition response_ok :: "nat \<Rightarrow> bool" where
  "response_ok status = (200 \<le> status \<and> status \<le> 299)"

text \<open>What the handler writes with \<^verbatim>\<open>console.warn\<close>: the per-item line
  \<^verbatim>\<open>Upload failed for ${filename} with status ${response.status}\<close> and the line
  \<^verbatim>\<open>Upload error:\<close> of the \<^verbatim>\<open>catch\<close> block.\<close>

datatype console_warning = UploadFailedFor string nat | UploadError

text \<open>The four messages the handler passes to \<^verbatim>\<open>setUploadStatus\<close>, with the numbers
  their template strings interpolate.\<close>

datatype status_message =
    UploadedAll nat
  | AllUploadsFailed
  | UploadedSome nat nat
  | UploadFailed

text \<open>The three \<^verbatim>\<open>useState\<close> cells of \<^verbatim>\<open>HomeScreen\<close> that \<^verbatim>\<open>handleUploadAll\<close> touches.\<close>

record home_screen =
  selectedImages :: "string list"
  isUploading :: bool
  uploadStatus :: "status_message option"

text \<open>
  The handlers of the controls that stay enabled while an upload runs: the capture button,
  the button \<^verbatim>\<open>Upload from Files\<close> and the long press on a thumbnail. (The buttons
  \<^verbatim>\<open>Clear\<close> and \<^verbatim>\<open>Upload\<close> have \<^verbatim>\<open>disabled={isUploading}\<close>.) Each writes the queue
  with a functional update, so it acts on the queue as it is when the handler runs.

  \<^verbatim>\<open>handleTakePicture\<close>: its argument is \<^verbatim>\<open>photo?.uri\<close>, absent when the handler
  returned early (no camera, no permission), when \<^verbatim>\<open>takePictureAsync\<close> rejected or gave
  no photo; an empty URI is falsy. \<^verbatim>\<open>handlePickFromFiles\<close>: its argument is the list of
  the URIs of \<^verbatim>\<open>result.assets\<close>, absent when the picker was cancelled, gave no assets or
  rejected. \<^verbatim>\<open>handleRemoveAt\<close>: \<^verbatim>\<open>prev.filter((_, i) => i !== index)\<close> keeps every position
  but \<open>index\<close>; an index outside the queue removes nothing.
\<close>

definition handleTakePicture :: "string option \<Rightarrow> home_screen \<Rightarrow> home_screen" where
  "handleTakePicture photo_uri st =
     (case photo_uri of
        Some uri \<Rightarrow>
          if uri \<noteq> []
          then st\<lparr>selectedImages := selectedImages st @ [uri], uploadStatus := None\<rparr>
          else st
      | None \<Rightarrow> st)"

definition handlePickFromFiles :: "string list option \<Rightarrow> home_screen \<Rightarrow> home_screen" where
  "handlePickFromFiles assets st =
     (case assets of
        Some uris \<Rightarrow>
          if length uris > 0
          then st\<lparr>selectedImages := selectedImages st @ uris, uploadStatus := None\<rparr>
          else st
      | None \<Rightarrow> st)"

definition handleRemoveAt :: "nat \<Rightarrow> home_screen \<Rightarrow> home_screen" where
  "handleRemoveAt index st =
     st\<lparr>selectedImages :=
          map snd (filter (\<lambda>(i, _). i \<noteq> index) (enumerate 0 (selectedImages st))),
        uploadStatus := None\<rparr>"

text \<open>What the user may do while a request of the upload is pending, and its effect on
  the screen.\<close>

datatype user_action =
    TakePicture "string option"
  | PickFromFiles "string list option"
  | RemoveAt nat

fun act :: "user_action \<Rightarrow> home_screen \<Rightarrow> home_screen" where
  "act (TakePicture photo_uri) st = handleTakePicture photo_uri st"
| "act (PickFromFiles assets) st = handlePickFromFiles assets st"
| "act (RemoveAt index) st = handleRemoveAt index st"

definition user_acts :: "user_action list \<Rightarrow> home_screen \<Rightarrow> home_screen" where
  "user_acts as st = foldl (\<lambda>s a. act a s) st as"

text \<open>
  The environment of one run of the handler. \<open>fetch env i req\<close> is what the \<open>i\<close>-th call
  of \<^verbatim>\<open>fetch\<close> in this run does with request \<open>req\<close>: it rejects (transport failure) or
  resolves with a response, of which the handler reads the status only. Indexing by the
  call number lets the same URI be answered differently each time it is posted.
  \<open>date_now env i\<close> is the clock at that iteration. \<open>meanwhile env i\<close> is what the user
  does on the screen while the handler awaits that call.
\<close>

record upload_env =
  fetch :: "nat \<Rightarrow> upload_request \<Rightarrow> nat settled"
  date_now :: "nat \<Rightarrow> nat"
  meanwhile :: "nat \<Rightarrow> user_action list"

text \<open>The effects of a run that are not in the component state: the requests issued,
  in order, and the console lines.\<close>

record upload_effects =
  posted :: "upload_request list"
  warned :: "console_warning list"

definition no_effects :: upload_effects where
  "no_effects = \<lparr>posted = [], warned = []\<rparr>"

datatype loop_exit = LoopDone | LoopThrew

text \<open>
  The \<^verbatim>\<open>for (const uri of selectedImages)\<close> loop, over the queue the closure holds.
  \<open>i\<close> is the number of the iteration, \<open>successCount\<close> the local counter, \<open>st\<close> the
  state of the screen. At \<^verbatim>\<open>await fetch(...)\<close> the handler is suspended and the user's
  actions run on the screen. A rejected \<^verbatim>\<open>fetch\<close> leaves the loop for the \<^verbatim>\<open>catch\<close>
  block of the handler; a response that is not ok is logged and the loop goes on
  (\<^verbatim>\<open>continue\<close>).
\<close>

fun upload_loop ::
  "upload_env \<Rightarrow> nat \<Rightarrow> string list \<Rightarrow> nat \<Rightarrow> upload_effects \<Rightarrow> home_screen
     \<Rightarrow> loop_exit \<times> nat \<times> upload_effects \<times> home_screen" where
  "upload_loop env i [] successCount eff st = (LoopDone, successCount, eff, st)"
| "upload_loop env i (uri # rest) successCount eff st =
     (let filename = filename_of (date_now env i) uri;
          req = upload_request_for uri filename;
          eff1 = eff\<lparr>posted := posted eff @ [req]\<rparr>;
          st1 = user_acts (meanwhile env i) st
      in case fetch env i req of
           Rejects \<Rightarrow> (LoopThrew, successCount, eff1, st1)
         | Resolves status \<Rightarrow>
             if \<not> response_ok status
             then upload_loop env (Suc i) rest successCount
                    (eff1\<lparr>warned := warned eff1 @ [UploadFailedFor filename status]\<rparr>) st1
             else upload_loop env (Suc i) rest (successCount + 1) eff1 st1)"

text \<open>
  \<^verbatim>\<open>handleUploadAll\<close>. The closure holds \<^verbatim>\<open>selectedImages\<close> of the render in which the
  handler was created (\<open>selectedImages st\<close>): the guard, the loop and the two comparisons
  with \<^verbatim>\<open>selectedImages.length\<close> read that queue. The state setters write the screen as
  it is when they run; \<^verbatim>\<open>setSelectedImages([])\<close> replaces whatever queue is there.
\<close>

definition handleUploadAll :: "upload_env \<Rightarrow> home_screen \<Rightarrow> home_screen \<times> upload_effects" where
  "handleUploadAll env st =
     (if length (selectedImages st) = 0 then (st, no_effects)
      else
        let st1 = st\<lparr>isUploading := True, uploadStatus := None\<rparr>;
            (st2, eff2) =
              (case upload_loop env 0 (selectedImages st) 0 no_effects st1 of
                 (LoopDone, successCount, eff, st') \<Rightarrow>
                   if successCount = length (selectedImages st)
                   then (st'\<lparr>uploadStatus := Some (UploadedAll successCount),
                              selectedImages := []\<rparr>, eff)
                   else if successCount = 0
                   then (st'\<lparr>uploadStatus := Some AllUploadsFailed\<rparr>, eff)
                   else (st'\<lparr>uploadStatus :=
                                Some (UploadedSome successCount (length (selectedImages st)))\<rparr>,
                         eff)
               | (LoopThrew, successCount, eff, st') \<Rightarrow>
                   (st'\<lparr>uploadStatus := Some UploadFailed\<rparr>,
                    eff\<lparr>warned := warned eff @ [UploadError]\<rparr>))
        in (st2\<lparr>isUploading := False\<rparr>, eff2))"

text \<open>The screen after the user's actions during \<open>n\<close> consecutive requests, from the
  \<open>i\<close>-th on.\<close>

fun after_user :: "upload_env \<Rightarrow> nat \<Rightarrow> nat \<Rightarrow> home_screen \<Rightarrow> home_screen" where
  "after_user env i 0 st = st"
| "after_user env i (Suc n) st = after_user env (Suc i) n (user_acts (meanwhile env i) st)"

subsection \<open>The outcomes of a batch\<close>

text \<open>
  What each item of a queue meets when it is posted: the request the loop builds for the
  item at position \<open>i\<close>, and what \<^verbatim>\<open>fetch\<close> does with it. \<open>attempts env i q\<close> lists
  this for the whole queue, also for the items a run never reaches.
\<close>

definition attempt_at :: "upload_env \<Rightarrow> nat \<Rightarrow> string \<Rightarrow> upload_request \<times> nat settled" where
  "attempt_at env i uri =
     (let req = upload_request_for uri (filename_of (date_now env i) uri)
      in (req, fetch env i req))"

definition attempts ::
  "upload_env \<Rightarrow> nat \<Rightarrow> string list \<Rightarrow> (upload_request \<times> nat settled) list" where
  "attempts env i q = map (\<lambda>(j, uri). attempt_at env j uri) (enumerate i q)"

fun is_response :: "'a settled \<Rightarrow> bool" where
  "is_response Rejects = False"
| "is_response (Resolves _) = True"

text \<open>An item succeeded when its POST was answered with a 2xx status.\<close>

fun item_succeeded :: "nat settled \<Rightarrow> bool" where
  "item_succeeded Rejects = False"
| "item_succeeded (Resolves status) = response_ok status"

text \<open>The console line of an item answered with a status that is not 2xx.\<close>

fun failure_line :: "upload_request \<times> nat settled \<Rightarrow> console_warning option" where
  "failure_line (req, Rejects) = None"
| "failure_line (req, Resolves status) =
     (if response_ok status then None else Some (UploadFailedFor (file_name req) status))"

text \<open>The items posted before the first transport failure.\<close>

definition answered ::
  "upload_env \<Rightarrow> nat \<Rightarrow> string list \<Rightarrow> (upload_request \<times> nat settled) list" where
  "answered env i q = takeWhile (\<lambda>a. is_response (snd a)) (attempts env i q)"

text \<open>
  The source builds no result value. What the handler holds when its loop ends is the
  length of \<^verbatim>\<open>selectedImages\<close>, the counter \<^verbatim>\<open>successCount\<close> and the failures it has
  logged: one line for each item answered with a bad status, and the line of the
  \<^verbatim>\<open>catch\<close> block when a \<^verbatim>\<open>fetch\<close> rejected. \<open>batchResult\<close> reads the three fields
  of the specification's aggregate off these.
\<close>

record batch_result =
  totalItems :: nat
  succeeded :: nat
  failedItems :: "console_warning list"

definition batchResult :: "upload_env \<Rightarrow> string list \<Rightarrow> batch_result" where
  "batchResult env q =
     (case upload_loop env 0 q 0 no_effects
             \<lparr>selectedImages = q, isUploading = True, uploadStatus = None\<rparr> of
        (LoopDone, successCount, eff, st') \<Rightarrow>
          \<lparr>totalItems = length q, succeeded = successCount, failedItems = warned eff\<rparr>
      | (LoopThrew, successCount, eff, st') \<Rightarrow>
          \<lparr>totalItems = length q, succeeded = successCount,
           failedItems = warned eff @ [UploadError]\<rparr>)"

subsection \<open>Example runs\<close>

definition env_all_ok :: upload_env where
  "env_all_ok = \<lparr>fetch = (\<lambda>i req. Resolves 200), date_now = (\<lambda>i. 0), meanwhile = (\<lambda>i. [])\<rparr>"

definition env_all_500 :: upload_env where
  "env_all_500 = \<lparr>fetch = (\<lambda>i req. Resolves 500), date_now = (\<lambda>i. 0), meanwhile = (\<lambda>i. [])\<rparr>"

definition env_second_500 :: upload_env where
  "env_second_500 =
     \<lparr>fetch = (\<lambda>i req. if i = 1 then Resolves 500 else Resolves 200),
      date_now = (\<lambda>i. 0), meanwhile = (\<lambda>i. [])\<rparr>"

definition env_second_rejects :: upload_env where
  "env_second_rejects =
     \<lparr>fetch = (\<lambda>i req. if i = 1 then Rejects else Resolves 200),
      date_now = (\<lambda>i. 0), meanwhile = (\<lambda>i. [])\<rparr>"

definition env_first_rejects :: upload_env where
  "env_first_rejects =
     \<lparr>fetch = (\<lambda>i req. if i = 0 then Rejects else Resolves 200),
      date_now = (\<lambda>i. 0), meanwhile = (\<lambda>i. [])\<rparr>"

text \<open>Every POST is answered 200, and while the first is pending the user adds B with
  the button \<^verbatim>\<open>Upload from Files\<close>.\<close>

definition env_pick_meanwhile :: upload_env where
  "env_pick_meanwhile =
     \<lparr>fetch = (\<lambda>i req. Resolves 200), date_now = (\<lambda>i. 0),
      meanwhile = (\<lambda>i. if i = 0 then [PickFromFiles (Some [''file:///cache/B.jpg''])] else [])\<rparr>"

definition queue_A :: "string list" where
  "queue_A = [''file:///cache/A.jpg'']"

definition queue_AB :: "string list" where
  "queue_AB = [''file:///cache/A.jpg'', ''file:///cache/B.jpg'']"

definition queue_ABC :: "string list" where
  "queue_ABC = [''file:///cache/A.jpg'', ''file:///cache/B.jpg'', ''file:///cache/C.jpg'']"

definition screen_with :: "string list \<Rightarrow> home_screen" where
  "screen_with q = \<lparr>selectedImages = q, isUploading = False, uploadStatus = None\<rparr>"

definition request_of :: "string \<Rightarrow> string \<Rightarrow> upload_request" where
  "request_of uri name =
     \<lparr>req_url = ''http://192.168.0.153:3000/upload-receipt'', req_method = ''POST'',
      req_content_type = ''multipart/form-data'',
      file_uri = uri, file_name = name, file_type = ''image/jpeg''\<rparr>"

section \<open>The session: \<^verbatim>\<open>app/_layout.tsx\<close>\<close>

subsection \<open>Configuration\<close>

text \<open>\<^verbatim>\<open>process.env.EXPO_PUBLIC_TENANT_ID\<close> and \<^verbatim>\<open>process.env.EXPO_PUBLIC_CLIENT_ID\<close>, each
  of type \<^verbatim>\<open>string | undefined\<close>.\<close>

record config =
  TENANT_ID :: "string option"
  CLIENT_ID :: "string option"

text \<open>\<^verbatim>\<open>v ?? d\<close> and \<^verbatim>\<open>v || d\<close> on a value of type \<^verbatim>\<open>string | undefined\<close>: the
  first replaces an absent value only, the second every falsy one, so the empty string
  as well.\<close>

fun nullish :: "string option \<Rightarrow> string \<Rightarrow> string" where
  "nullish None d = d"
| "nullish (Some s) d = s"

fun or_else :: "string option \<Rightarrow> string \<Rightarrow> string" where
  "or_else None d = d"
| "or_else (Some s) d = (if s \<noteq> [] then s else d)"

text \<open>The argument of \<^verbatim>\<open>AuthSession.useAutoDiscovery\<close>:
  \<^verbatim>\<open>TENANT_ID ? `https://login.microsoftonline.com/${TENANT_ID}/v2.0` : `undefined`\<close>.
  The second branch is the nine-letter string, not the value \<^verbatim>\<open>undefined\<close>.\<close>

definition discovery_issuer :: "config \<Rightarrow> string" where
  "discovery_issuer cfg =
     (case TENANT_ID cfg of
        Some t \<Rightarrow>
          if t \<noteq> [] then ''https://login.microsoftonline.com/'' @ t @ ''/v2.0''
          else ''undefined''
      | None \<Rightarrow> ''undefined'')"

text \<open>The first argument of \<^verbatim>\<open>AuthSession.useAuthRequest\<close>.\<close>

record auth_request_config =
  clientId :: string
  scopes :: "string list"
  responseType :: string
  redirectUri :: string

definition authRequestConfig :: "config \<Rightarrow> string \<Rightarrow> auth_request_config" where
  "authRequestConfig cfg redirect =
     \<lparr>clientId = nullish (CLIENT_ID cfg) [],
      scopes = [''openid'', ''profile'', ''email'', ''offline_access'', ''User.Read''],
      responseType = ''code'',
      redirectUri = redirect\<rparr>"

subsection \<open>Values of the library hooks\<close>

text \<open>
  \<^verbatim>\<open>useAutoDiscovery\<close> and \<^verbatim>\<open>useAuthRequest\<close> belong to expo-auth-session. The
  component reads their current values at each render: the discovery document or
  \<^verbatim>\<open>null\<close>, the request or \<^verbatim>\<open>null\<close>, the response or \<^verbatim>\<open>null\<close>. They are inputs of the
  model.
\<close>

record discovery_document =
  authorizationEndpoint :: string
  tokenEndpoint :: string

record auth_request =
  codeVerifier :: "string option"

text \<open>The response of the authorization step: its \<^verbatim>\<open>type\<close> (\<^verbatim>\<open>success\<close>, \<^verbatim>\<open>cancel\<close>,
  \<^verbatim>\<open>dismiss\<close>, \<^verbatim>\<open>error\<close>, ...) and \<^verbatim>\<open>params.code\<close>.\<close>

record auth_session_result =
  result_type :: string
  params_code :: string

text \<open>The first argument of \<^verbatim>\<open>AuthSession.exchangeCodeAsync\<close>.\<close>

record exchange_config =
  exchange_clientId :: string
  exchange_code :: string
  exchange_redirectUri :: string
  code_verifier :: string

text \<open>The body of the profile response as \<^verbatim>\<open>profileRes.json()\<close> parses it. Reading a
  property of \<^verbatim>\<open>null\<close> raises a TypeError; of any other value it gives the property or
  \<^verbatim>\<open>undefined\<close>.\<close>

record profile =
  profile_displayName :: "string option"
  profile_givenName :: "string option"
  profile_surname :: "string option"

datatype parsed_body = JsonNull | JsonValue profile

subsection \<open>State\<close>

record AuthState =
  accessToken :: string
  displayName :: "string option"
  givenName :: "string option"
  surname :: "string option"

text \<open>Calls that leave the device: the metadata lookup of \<^verbatim>\<open>useAutoDiscovery\<close> (by the
  issuer it is given), the token exchange, and the GET of the profile (URL and
  \<^verbatim>\<open>Authorization\<close> header).\<close>

datatype net_call =
    Discovery string
  | TokenExchange exchange_config discovery_document
  | ProfileGet string string

text \<open>The console lines of the effects and callbacks.\<close>

datatype console_line =
    WarnErrorLoadingToken
  | WarnTokenExchangeError
  | WarnAuthRequestNotReady
  | WarnAutoSignInError
  | LogSignedInAs "string option" "string option"

text \<open>
  The state cells of \<^verbatim>\<open>AuthProvider\<close> (\<open>authState\<close>, \<open>loading\<close>) and of \<^verbatim>\<open>AuthGate\<close>
  (\<open>autoStarted\<close>), the secure store, and the trace of what the code did: network calls,
  console lines, and the number of calls of \<^verbatim>\<open>promptAsync\<close>, each of which opens the
  sign-in prompt of the identity provider.
\<close>

record app =
  authState :: "AuthState option"
  loading :: bool
  autoStarted :: bool
  secureStore :: "string \<rightharpoonup> string"
  network :: "net_call list"
  console :: "console_line list"
  prompts :: nat

text \<open>
  What the platform does in one run of an effect or callback: whether each operation of
  the secure store rejects, what the token endpoint returns for an exchange (a rejection,
  or a token response whose \<^verbatim>\<open>accessToken\<close> may be absent or empty), what the profile
  GET does for an \<^verbatim>\<open>Authorization\<close> header (the \<^verbatim>\<open>fetch\<close> rejects, or it resolves and
  \<^verbatim>\<open>json()\<close> rejects or parses a body), and whether \<^verbatim>\<open>promptAsync\<close> rejects.
\<close>

record auth_env =
  getItem_rejects :: bool
  setItem_rejects :: bool
  deleteItem_rejects :: bool
  exchangeCodeAsync :: "exchange_config \<Rightarrow> discovery_document \<Rightarrow> string option settled"
  fetch_me :: "string \<Rightarrow> parsed_body settled settled"
  promptAsync_rejects :: bool

subsection \<open>The secure store\<close>

text \<open>An operation that rejects leaves the store as it was.\<close>

definition getItemAsync :: "auth_env \<Rightarrow> string \<Rightarrow> app \<Rightarrow> string option settled" where
  "getItemAsync env key w = (if getItem_rejects env then Rejects else Resolves (secureStore w key))"

definition setItemAsync :: "auth_env \<Rightarrow> string \<Rightarrow> string \<Rightarrow> app \<Rightarrow> unit settled \<times> app" where
  "setItemAsync env key v w =
     (if setItem_rejects env then (Rejects, w)
      else (Resolves (), w\<lparr>secureStore := (secureStore w)(key \<mapsto> v)\<rparr>))"

definition deleteItemAsync :: "auth_env \<Rightarrow> string \<Rightarrow> app \<Rightarrow> unit settled \<times> app" where
  "deleteItemAsync env key w =
     (if deleteItem_rejects env then (Rejects, w)
      else (Resolves (), w\<lparr>secureStore := (secureStore w)(key := None)\<rparr>))"

subsection \<open>\<^verbatim>\<open>AuthProvider\<close>\<close>

text \<open>The state of the first render: \<^verbatim>\<open>useState(null)\<close>, \<^verbatim>\<open>useState(true)\<close>,
  \<^verbatim>\<open>useState(false)\<close>, and the discovery that \<^verbatim>\<open>useAutoDiscovery\<close> is asked for.\<close>

definition mounted :: "config \<Rightarrow> (string \<rightharpoonup> string) \<Rightarrow> app" where
  "mounted cfg store =
     \<lparr>authState = None, loading = True, autoStarted = False, secureStore = store,
      network = [Discovery (discovery_issuer cfg)], console = [], prompts = 0\<rparr>"

text \<open>The effect \<^verbatim>\<open>// Load token on startup\<close>: \<^verbatim>\<open>try\<close>, \<^verbatim>\<open>catch\<close>, \<^verbatim>\<open>finally\<close>.
  \<^verbatim>\<open>if (storedToken)\<close> is false for \<^verbatim>\<open>null\<close> and for the empty string.\<close>

definition load_token :: "auth_env \<Rightarrow> app \<Rightarrow> unit settled \<times> app" where
  "load_token env w =
     (let w1 =
        (case getItemAsync env ''accessToken'' w of
           Resolves storedToken \<Rightarrow>
             (case storedToken of
                Some t \<Rightarrow>
                  if t \<noteq> []
                  then w\<lparr>authState := Some \<lparr>accessToken = t, displayName = None,
                                            givenName = None, surname = None\<rparr>\<rparr>
                  else w
              | None \<Rightarrow> w)
         | Rejects \<Rightarrow> w\<lparr>console := console w @ [WarnErrorLoadingToken]\<rparr>)
      in (Resolves (), w1\<lparr>loading := False\<rparr>))"

text \<open>The first argument of \<^verbatim>\<open>exchangeCodeAsync\<close> as the response effect builds it:
  \<^verbatim>\<open>clientId: CLIENT_ID ?? ""\<close>, the code, the redirect URI and
  \<^verbatim>\<open>code_verifier: request?.codeVerifier || ""\<close>.\<close>

definition exchangeConfig ::
  "config \<Rightarrow> string \<Rightarrow> auth_request option \<Rightarrow> string \<Rightarrow> exchange_config" where
  "exchangeConfig cfg code req redirect =
     \<lparr>exchange_clientId = nullish (CLIENT_ID cfg) [],
      exchange_code = code,
      exchange_redirectUri = redirect,
      code_verifier = (case req of None \<Rightarrow> [] | Some r \<Rightarrow> or_else (codeVerifier r) [])\<rparr>"

text \<open>
  The \<^verbatim>\<open>try\<close> block of the effect \<^verbatim>\<open>// Handle Microsoft response\<close>: the token
  exchange, the profile GET, the write to the secure store and \<^verbatim>\<open>setAuthState\<close>, in the
  order of the source. Every \<^verbatim>\<open>await\<close> that rejects ends the block with \<open>Rejects\<close>.
\<close>

definition exchange_and_store ::
  "config \<Rightarrow> auth_env \<Rightarrow> string \<Rightarrow> discovery_document \<Rightarrow> auth_request option \<Rightarrow> string
     \<Rightarrow> app \<Rightarrow> unit settled \<times> app" where
  "exchange_and_store cfg env code disc req redirect w =
     (let xc = exchangeConfig cfg code req redirect;
          w1 = w\<lparr>network := network w @ [TokenExchange xc disc]\<rparr>
      in (case exchangeCodeAsync env xc disc of
            Rejects \<Rightarrow> (Rejects, w1)
          | Resolves None \<Rightarrow> (Resolves (), w1)
          | Resolves (Some token) \<Rightarrow>
              if token = [] then (Resolves (), w1)
              else
                (let bearer = ''Bearer '' @ token;
                     w2 = w1\<lparr>network := network w1 @
                            [ProfileGet ''https://graph.microsoft.com/v1.0/me'' bearer]\<rparr>
                 in (case fetch_me env bearer of
                       Rejects \<Rightarrow> (Rejects, w2)
                     | Resolves Rejects \<Rightarrow> (Rejects, w2)
                     | Resolves (Resolves JsonNull) \<Rightarrow> (Rejects, w2)
                     | Resolves (Resolves (JsonValue p)) \<Rightarrow>
                         (let w3 = w2\<lparr>console := console w2 @
                                     [LogSignedInAs (profile_givenName p) (profile_surname p)]\<rparr>
                          in (case setItemAsync env ''accessToken'' token w3 of
                                (Rejects, w4) \<Rightarrow> (Rejects, w4)
                              | (Resolves u, w4) \<Rightarrow>
                                  (Resolves (),
                                   w4\<lparr>authState := Some
                                        \<lparr>accessToken = token,
                                         displayName = profile_displayName p,
                                         givenName = profile_givenName p,
                                         surname = profile_surname p\<rparr>\<rparr>)))))))"

text \<open>The whole effect: the two early returns, then the \<^verbatim>\<open>try\<close> block, whose rejection
  the \<^verbatim>\<open>catch\<close> block logs.\<close>

definition handle_response ::
  "config \<Rightarrow> auth_env \<Rightarrow> auth_session_result option \<Rightarrow> discovery_document option
     \<Rightarrow> auth_request option \<Rightarrow> string \<Rightarrow> app \<Rightarrow> unit settled \<times> app" where
  "handle_response cfg env resp disc req redirect w =
     (case resp of
        None \<Rightarrow> (Resolves (), w)
      | Some r \<Rightarrow>
          if result_type r \<noteq> ''success'' then (Resolves (), w)
          else
            (case disc of
               None \<Rightarrow> (Resolves (), w)
             | Some d \<Rightarrow>
                 (case exchange_and_store cfg env (params_code r) d req redirect w of
                    (Rejects, w1) \<Rightarrow>
                      (Resolves (), w1\<lparr>console := console w1 @ [WarnTokenExchangeError]\<rparr>)
                  | (Resolves u, w1) \<Rightarrow> (Resolves (), w1))))"

text \<open>\<^verbatim>\<open>signIn\<close> and \<^verbatim>\<open>signOut\<close>. Neither has a \<^verbatim>\<open>try\<close>: a rejection of \<^verbatim>\<open>promptAsync\<close> or
  of \<^verbatim>\<open>SecureStore.deleteItemAsync\<close> is the rejection of the callback's promise.\<close>

definition signIn :: "auth_env \<Rightarrow> auth_request option \<Rightarrow> app \<Rightarrow> unit settled \<times> app" where
  "signIn env req w =
     (case req of
        None \<Rightarrow> (Resolves (), w\<lparr>console := console w @ [WarnAuthRequestNotReady]\<rparr>)
      | Some r \<Rightarrow>
          (if promptAsync_rejects env then Rejects else Resolves (),
           w\<lparr>prompts := prompts w + 1\<rparr>))"

definition signOut :: "auth_env \<Rightarrow> app \<Rightarrow> unit settled \<times> app" where
  "signOut env w = deleteItemAsync env ''accessToken'' (w\<lparr>authState := None\<rparr>)"

subsection \<open>\<^verbatim>\<open>AuthGate\<close>\<close>

text \<open>The effect of \<^verbatim>\<open>AuthGate\<close>: \<^verbatim>\<open>setAutoStarted(true)\<close>, then \<^verbatim>\<open>signIn()\<close> with its
  rejection caught and logged.\<close>

definition auth_gate_effect :: "auth_env \<Rightarrow> auth_request option \<Rightarrow> app \<Rightarrow> app" where
  "auth_gate_effect env req w =
     (if \<not> loading w \<and> authState w = None \<and> \<not> autoStarted w
      then
        (case signIn env req (w\<lparr>autoStarted := True\<rparr>) of
           (Rejects, w1) \<Rightarrow> w1\<lparr>console := console w1 @ [WarnAutoSignInError]\<rparr>
         | (Resolves u, w1) \<Rightarrow> w1)
      else w)"

text \<open>
  What \<^verbatim>\<open>AuthGate\<close> renders, in the order of its tests: the spinner while \<open>loading\<close>, the
  sign-in screen while there is no \<open>authState\<close>, its children otherwise. These are the
  three states \<open>Initializing\<close>, \<open>Unauthenticated\<close> and \<open>Authenticated\<close> of the session.
\<close>

datatype session_state = Initializing | Unauthenticated | Authenticated AuthState

definition session :: "app \<Rightarrow> session_state" where
  "session w =
     (if loading w then Initializing
      else (case authState w of None \<Rightarrow> Unauthenticated | Some a \<Rightarrow> Authenticated a))"

subsection \<open>Runs\<close>

text \<open>
  The things that happen to the mounted application: the startup effect completes; the
  response effect runs with the current values of the hooks; the user presses the
  sign-in button or the sign-out button; the component renders again for any other
  reason. Each carries the behaviour of the platform while it runs.
\<close>

datatype event =
    LoadToken auth_env
  | Response auth_env "auth_session_result option" "discovery_document option"
      "auth_request option" string
  | PressSignIn auth_env "auth_request option"
  | PressSignOut auth_env
  | Rerender

fun handle :: "config \<Rightarrow> event \<Rightarrow> app \<Rightarrow> app" where
  "handle cfg (LoadToken env) w = snd (load_token env w)"
| "handle cfg (Response env resp disc req redirect) w =
     snd (handle_response cfg env resp disc req redirect w)"
| "handle cfg (PressSignIn env req) w = snd (signIn env req w)"
| "handle cfg (PressSignOut env) w = snd (signOut env w)"
| "handle cfg Rerender w = w"

text \<open>
  After every change of state React renders and runs the effect of \<^verbatim>\<open>AuthGate\<close>, with
  the \<^verbatim>\<open>signIn\<close> of that render (\<open>gate_request\<close>) and the platform as it then behaves
  (\<open>gate_env\<close>). Running the effect after each event, also when none of its dependencies
  changed, observes the state at least as often as React does.
\<close>

record tick =
  happening :: event
  gate_env :: auth_env
  gate_request :: "auth_request option"

definition step :: "config \<Rightarrow> app \<Rightarrow> tick \<Rightarrow> app" where
  "step cfg w t = auth_gate_effect (gate_env t) (gate_request t) (handle cfg (happening t) w)"

definition run :: "config \<Rightarrow> tick list \<Rightarrow> app \<Rightarrow> app" where
  "run cfg ts w = foldl (step cfg) w ts"

subsection \<open>Predicates on states and runs\<close>

text \<open>The session, if there is one, holds a non-empty token.\<close>

definition token_present :: "app \<Rightarrow> bool" where
  "token_present w = (case authState w of None \<Rightarrow> True | Some a \<Rightarrow> accessToken a \<noteq> [])"






text \<open>The number of lines \<^verbatim>\<open>[Auth] Auth request not ready yet\<close> on the console.\<close>

definition unready_warnings :: "app \<Rightarrow> nat" where
  "unready_warnings w = length (filter (\<lambda>l. l = WarnAuthRequestNotReady) (console w))"

subsection \<open>Example configurations, platforms and states\<close>

definition cfg_full :: config where
  "cfg_full = \<lparr>TENANT_ID = Some ''contoso'', CLIENT_ID = Some ''client-1''\<rparr>"

definition cfg_absent :: config where
  "cfg_absent = \<lparr>TENANT_ID = None, CLIENT_ID = None\<rparr>"

definition cfg_no_client :: config where
  "cfg_no_client = \<lparr>TENANT_ID = Some ''contoso'', CLIENT_ID = None\<rparr>"

definition profile_ada :: profile where
  "profile_ada =
     \<lparr>profile_displayName = Some ''Ada Lovelace'', profile_givenName = Some ''Ada'',
      profile_surname = Some ''Lovelace''\<rparr>"

text \<open>A platform on which everything works: the exchange returns the token \<open>tok1\<close> and
  the profile parses.\<close>

definition platform_ok :: auth_env where
  "platform_ok =
     \<lparr>getItem_rejects = False, setItem_rejects = False, deleteItem_rejects = False,
      exchangeCodeAsync = (\<lambda>xc d. Resolves (Some ''tok1'')),
      fetch_me = (\<lambda>bearer. Resolves (Resolves (JsonValue profile_ada))),
      promptAsync_rejects = False\<rparr>"

text \<open>The same, but the profile GET fails in transport; but its body does not parse; but
  the exchange returns an empty token; but the secure store rejects every operation; but
  the secure store rejects the write.\<close>

definition platform_write_fails :: auth_env where
  "platform_write_fails = platform_ok\<lparr>setItem_rejects := True\<rparr>"

definition platform_profile_down :: auth_env where
  "platform_profile_down = platform_ok\<lparr>fetch_me := (\<lambda>bearer. Rejects)\<rparr>"

definition platform_profile_garbled :: auth_env where
  "platform_profile_garbled = platform_ok\<lparr>fetch_me := (\<lambda>bearer. Resolves Rejects)\<rparr>"

definition platform_empty_token :: auth_env where
  "platform_empty_token = platform_ok\<lparr>exchangeCodeAsync := (\<lambda>xc d. Resolves (Some []))\<rparr>"

definition platform_store_broken :: auth_env where
  "platform_store_broken =
     platform_ok\<lparr>getItem_rejects := True, setItem_rejects := True, deleteItem_rejects := True\<rparr>"

definition disc0 :: discovery_document where
  "disc0 =
     \<lparr>authorizationEndpoint = ''https://login.example/authorize'',
      tokenEndpoint = ''https://login.example/token''\<rparr>"

definition req0 :: auth_request where
  "req0 = \<lparr>codeVerifier = Some ''verifier-1''\<rparr>"

definition success0 :: auth_session_result where
  "success0 = \<lparr>result_type = ''success'', params_code = ''code-1''\<rparr>"

definition redirect0 :: string where
  "redirect0 = ''exp://127.0.0.1:8081''"

text \<open>A secure store that holds the token \<open>abc123\<close>, and one that holds the empty
  string.\<close>

definition store_abc123 :: "string \<rightharpoonup> string" where
  "store_abc123 = [''accessToken'' \<mapsto> ''abc123'']"

definition store_blank :: "string \<rightharpoonup> string" where
  "store_blank = [''accessToken'' \<mapsto> []]"

text \<open>Events on the platform on which everything works, with the request ready.\<close>

definition tick_of :: "event \<Rightarrow> tick" where
  "tick_of e = \<lparr>happening = e, gate_env = platform_ok, gate_request = Some req0\<rparr>"


text \<open>The application after a startup that found no token (the automatic sign-in has
  happened), and after one that restored \<open>abc123\<close>.\<close>

definition signed_out :: app where
  "signed_out = run cfg_full [tick_of (LoadToken platform_ok)] (mounted cfg_full Map.empty)"

definition signed_in :: app where
  "signed_in = run cfg_full [tick_of (LoadToken platform_ok)] (mounted cfg_full store_abc123)"


section \<open>Properties of the upload handler\<close>

subsection \<open>The loop, in closed form\<close>

lemma attempts_Nil [simp]: "attempts env i [] = []"
  by (simp add: attempts_def)

lemma attempts_Cons [simp]:
  "attempts env i (uri # rest) = attempt_at env i uri # attempts env (Suc i) rest"
  by (simp add: attempts_def enumerate_simps)

lemma length_attempts [simp]: "length (attempts env i q) = length q"
  by (simp add: attempts_def)

lemma file_name_upload_request_for [simp]:
  "file_name (upload_request_for uri name) = name"
  by (simp add: upload_request_for_def)

lemma split_on_nonempty: "split_on c s \<noteq> []"
  by (induction s) (auto split: list.splits)

lemma filename_of_last: "filename_of now uri = last (split_on CHR ''/'' uri)"
  by (simp add: filename_of_def pop_def split_on_nonempty)

lemma upload_loop_closed:
  "upload_loop env i q sc eff st =
     (if length (answered env i q) = length q then LoopDone else LoopThrew,
      sc + length (filter (\<lambda>a. item_succeeded (snd a)) (answered env i q)),
      \<lparr>posted = posted eff @ map fst (take (Suc (length (answered env i q))) (attempts env i q)),
       warned = warned eff @ List.map_filter failure_line (answered env i q)\<rparr>,
      after_user env i (min (length q) (Suc (length (answered env i q)))) st)"
proof (induction q arbitrary: i sc eff st)
  case Nil
  show ?case by (simp add: answered_def List.map_filter_simps)
next
  case (Cons uri rest)
  show ?case
  proof (cases "fetch env i (upload_request_for uri (filename_of (date_now env i) uri))")
    case Rejects
    then show ?thesis
      by (simp add: answered_def attempt_at_def List.map_filter_simps)
  next
    case (Resolves status)
    then show ?thesis
      using Cons.IH [of "Suc i"]
      by (simp add: answered_def attempt_at_def List.map_filter_simps Let_def)
  qed
qed

lemma length_answered_le: "length (answered env i q) \<le> length q"
  unfolding answered_def using length_takeWhile_le [of _ "attempts env i q"] by simp

lemma answered_all:
  "length (answered env i q) = length q \<longleftrightarrow>
     list_all (\<lambda>a. is_response (snd a)) (attempts env i q)"
proof -
  have "length (takeWhile P xs) = length xs \<longleftrightarrow> list_all P xs" for P and xs :: "'b list"
    by (induction xs) (auto simp: list_all_iff)
  from this [of "\<lambda>a. is_response (snd a)" "attempts env i q"]
  show ?thesis by (simp add: answered_def)
qed

lemma answered_eq_attempts:
  "list_all (\<lambda>a. is_response (snd a)) (attempts env i q) \<Longrightarrow> answered env i q = attempts env i q"
  by (simp add: answered_def list_all_iff)

lemma takeWhile_filter_full:
  assumes "\<And>x. P x \<Longrightarrow> R x"
  shows "length (filter P (takeWhile R xs)) = length xs \<longleftrightarrow> list_all P xs"
proof (induction xs)
  case Nil
  show ?case by simp
next
  case (Cons x xs)
  have le: "length (filter P (takeWhile R xs)) \<le> length xs"
    by (rule order_trans [OF length_filter_le]) (rule length_takeWhile_le)
  show ?case using Cons.IH assms le by auto
qed

lemma succeeded_is_response: "item_succeeded r \<Longrightarrow> is_response r"
  by (cases r) simp_all

lemma success_count_full:
  "length (filter (\<lambda>a. item_succeeded (snd a)) (answered env i q)) = length q
     \<longleftrightarrow> list_all (\<lambda>a. item_succeeded (snd a)) (attempts env i q)"
  unfolding answered_def
  using takeWhile_filter_full
    [of "\<lambda>a. item_succeeded (snd a)" "\<lambda>a. is_response (snd a)" "attempts env i q"]
  by (simp add: succeeded_is_response)

lemma all_succeeded_all_answered:
  "list_all (\<lambda>a. item_succeeded (snd a)) (attempts env i q) \<Longrightarrow>
     length (answered env i q) = length q"
  unfolding answered_all by (auto simp: list_all_iff succeeded_is_response)

subsection \<open>The user's actions during an upload\<close>

lemma act_queue:
  "selectedImages s = selectedImages s' \<Longrightarrow> selectedImages (act a s) = selectedImages (act a s')"
  by (cases a)
    (simp_all add: handleTakePicture_def handlePickFromFiles_def handleRemoveAt_def
      split: option.splits)

lemma act_isUploading: "isUploading (act a s) = isUploading s"
  by (cases a)
    (simp_all add: handleTakePicture_def handlePickFromFiles_def handleRemoveAt_def
      split: option.splits)

lemma user_acts_queue:
  "selectedImages s = selectedImages s' \<Longrightarrow>
     selectedImages (user_acts as s) = selectedImages (user_acts as s')"
proof (induction as arbitrary: s s')
  case Nil
  then show ?case by (simp add: user_acts_def)
next
  case (Cons a as)
  from Cons.IH [OF act_queue [OF Cons.prems, of a]]
  show ?case by (simp add: user_acts_def)
qed

lemma user_acts_isUploading: "isUploading (user_acts as s) = isUploading s"
  unfolding user_acts_def
  by (induction as arbitrary: s) (simp_all add: act_isUploading)

lemma after_user_queue:
  "selectedImages s = selectedImages s' \<Longrightarrow>
     selectedImages (after_user env i n s) = selectedImages (after_user env i n s')"
proof (induction n arbitrary: i s s')
  case 0
  then show ?case by simp
next
  case (Suc n)
  from Suc.IH [OF user_acts_queue [OF Suc.prems, of "meanwhile env i"], of "Suc i"]
  show ?case by simp
qed

lemma after_user_isUploading: "isUploading (after_user env i n s) = isUploading s"
  by (induction n arbitrary: i s) (simp_all add: user_acts_isUploading)

lemma after_user_started:
  "selectedImages (after_user env i n (st\<lparr>isUploading := True, uploadStatus := None\<rparr>))
     = selectedImages (after_user env i n st)"
  by (rule after_user_queue) simp

lemma after_user_idle:
  "(\<And>j. meanwhile env j = []) \<Longrightarrow> after_user env i n st = st"
  by (induction n arbitrary: i) (simp_all add: user_acts_def)

subsection \<open>The handler, in closed form\<close>

lemma upload_queue_after:
  assumes "selectedImages st \<noteq> []"
  shows "selectedImages (fst (handleUploadAll env st)) =
           (if list_all (\<lambda>a. item_succeeded (snd a)) (attempts env 0 (selectedImages st))
            then []
            else selectedImages
                   (after_user env 0
                      (min (length (selectedImages st))
                         (Suc (length (answered env 0 (selectedImages st))))) st))"
  using assms success_count_full [of env 0 "selectedImages st"]
    all_succeeded_all_answered [of env 0 "selectedImages st"]
  by (auto simp add: handleUploadAll_def upload_loop_closed Let_def after_user_started)

lemma upload_effects_closed:
  "snd (handleUploadAll env st) =
     \<lparr>posted = map fst (take (Suc (length (answered env 0 (selectedImages st))))
                   (attempts env 0 (selectedImages st))),
      warned = List.map_filter failure_line (answered env 0 (selectedImages st)) @
               (if length (answered env 0 (selectedImages st)) = length (selectedImages st)
                then [] else [UploadError])\<rparr>"
proof (cases "selectedImages st = []")
  case True
  then show ?thesis
    by (simp add: handleUploadAll_def no_effects_def answered_def List.map_filter_simps)
next
  case False
  then show ?thesis
    by (simp add: handleUploadAll_def upload_loop_closed Let_def no_effects_def)
qed

lemma upload_aborted_state:
  assumes "length (answered env 0 (selectedImages st)) < length (selectedImages st)"
  shows "fst (handleUploadAll env st) =
           (after_user env 0 (Suc (length (answered env 0 (selectedImages st)))) st)
             \<lparr>isUploading := False, uploadStatus := Some UploadFailed\<rparr>"
proof -
  let ?n = "Suc (length (answered env 0 (selectedImages st)))"
  from assms have m: "min (length (selectedImages st)) ?n = ?n"
    by simp
  from assms have ne: "selectedImages st \<noteq> []"
    by auto
  have f: "fst (handleUploadAll env st) =
      (after_user env 0 ?n (st\<lparr>isUploading := True, uploadStatus := None\<rparr>))
        \<lparr>uploadStatus := Some UploadFailed, isUploading := False\<rparr>"
    using assms ne by (simp add: handleUploadAll_def upload_loop_closed Let_def m)
  show ?thesis
    unfolding f
    by (rule home_screen.equality) (simp_all add: after_user_started del: after_user.simps)
qed

lemma tally_answered:
  "\<forall>a \<in> set xs. is_response (snd a) \<Longrightarrow>
     length (filter (\<lambda>a. item_succeeded (snd a)) xs) + length (List.map_filter failure_line xs)
       = length xs"
proof (induction xs)
  case Nil
  show ?case by (simp add: List.map_filter_simps)
next
  case (Cons a xs)
  obtain req r where a: "a = (req, r)" by (cases a)
  from Cons.prems a obtain status where r: "r = Resolves status"
    by (cases r) simp_all
  from Cons show ?case
    by (simp add: a r List.map_filter_simps)
qed

lemma tally_of_answered:
  "length (filter (\<lambda>a. item_succeeded (snd a)) (answered env i q))
     + length (List.map_filter failure_line (answered env i q)) = length (answered env i q)"
  by (rule tally_answered) (auto simp: answered_def dest: set_takeWhileD)

lemma batchResult_closed:
  "batchResult env q =
     \<lparr>totalItems = length q,
      succeeded = length (filter (\<lambda>a. item_succeeded (snd a)) (answered env 0 q)),
      failedItems = List.map_filter failure_line (answered env 0 q) @
                    (if length (answered env 0 q) = length q then [] else [UploadError])\<rparr>"
  by (simp add: batchResult_def upload_loop_closed no_effects_def)

subsection \<open>Failure of one item\<close>

text \<open>
  C2, as amended. An item whose POST is answered with a status that is not 2xx is logged
  with its file name and status, that item alone, and the loop goes on: when no POST of
  the batch raises a transport exception, every item of the queue is posted once, in
  order, and the log holds exactly the lines of the badly answered items. A transport
  exception is not per item: the loop is left at that item, no later item is posted, the
  log gets the one line of the \<^verbatim>\<open>catch\<close> block, and the screen shows the general
  failure message with the queue unwritten by the handler: it is what the user's actions
  during the requests made of it, so what it was when there were none.
\<close>

theorem upload_failure_handling:
  "posted (snd (handleUploadAll env st)) =
     map fst (take (Suc (length (answered env 0 (selectedImages st))))
                (attempts env 0 (selectedImages st)))
   \<and> (list_all (\<lambda>a. is_response (snd a)) (attempts env 0 (selectedImages st)) \<longrightarrow>
        posted (snd (handleUploadAll env st)) = map fst (attempts env 0 (selectedImages st))
        \<and> warned (snd (handleUploadAll env st)) =
            List.map_filter failure_line (attempts env 0 (selectedImages st)))
   \<and> (\<not> list_all (\<lambda>a. is_response (snd a)) (attempts env 0 (selectedImages st)) \<longrightarrow>
        length (posted (snd (handleUploadAll env st))) =
          Suc (length (answered env 0 (selectedImages st)))
        \<and> warned (snd (handleUploadAll env st)) =
            List.map_filter failure_line (answered env 0 (selectedImages st)) @ [UploadError]
        \<and> fst (handleUploadAll env st) =
            (after_user env 0 (Suc (length (answered env 0 (selectedImages st)))) st)
              \<lparr>isUploading := False, uploadStatus := Some UploadFailed\<rparr>)"
proof -
  let ?q = "selectedImages st"
  let ?n = "length (answered env 0 ?q)"
  have eff: "snd (handleUploadAll env st) =
     \<lparr>posted = map fst (take (Suc ?n) (attempts env 0 ?q)),
      warned = List.map_filter failure_line (answered env 0 ?q) @
               (if ?n = length ?q then [] else [UploadError])\<rparr>"
    by (rule upload_effects_closed)
  have all: "list_all (\<lambda>a. is_response (snd a)) (attempts env 0 ?q) \<Longrightarrow>
      ?n = length ?q \<and> answered env 0 ?q = attempts env 0 ?q"
    by (simp add: answered_all answered_eq_attempts)
  have some: "\<not> list_all (\<lambda>a. is_response (snd a)) (attempts env 0 ?q) \<Longrightarrow> ?n < length ?q"
    using answered_all [of env 0 ?q] length_answered_le [of env 0 ?q] by simp
  show ?thesis
  proof (intro conjI impI)
    show "posted (snd (handleUploadAll env st)) = map fst (take (Suc ?n) (attempts env 0 ?q))"
      by (simp add: eff)
  next
    assume "list_all (\<lambda>a. is_response (snd a)) (attempts env 0 ?q)"
    from all [OF this]
    show "posted (snd (handleUploadAll env st)) = map fst (attempts env 0 ?q)"
      by (simp add: eff)
  next
    assume "list_all (\<lambda>a. is_response (snd a)) (attempts env 0 ?q)"
    from all [OF this]
    show "warned (snd (handleUploadAll env st)) =
        List.map_filter failure_line (attempts env 0 ?q)"
      by (simp add: eff)
  next
    assume "\<not> list_all (\<lambda>a. is_response (snd a)) (attempts env 0 ?q)"
    from some [OF this]
    show "length (posted (snd (handleUploadAll env st))) = Suc ?n"
      by (simp add: eff)
  next
    assume "\<not> list_all (\<lambda>a. is_response (snd a)) (attempts env 0 ?q)"
    from some [OF this]
    show "warned (snd (handleUploadAll env st)) =
        List.map_filter failure_line (answered env 0 ?q) @ [UploadError]"
      by (simp add: eff)
  next
    assume "\<not> list_all (\<lambda>a. is_response (snd a)) (attempts env 0 ?q)"
    from some [OF this]
    show "fst (handleUploadAll env st) =
        (after_user env 0 (Suc ?n) st)\<lparr>isUploading := False, uploadStatus := Some UploadFailed\<rparr>"
      by (rule upload_aborted_state)
  qed
qed

text \<open>
  The queue A, B, C with B answered 500 (scenario D of the specification): all three are
  posted and B alone is logged. The same queue with the POST of B rejected: A and B are
  posted, C is not, and the log holds the line of the \<^verbatim>\<open>catch\<close> block.
\<close>

theorem upload_failure_handling_witness:
  "list_all (\<lambda>a. is_response (snd a)) (attempts env_second_500 0 queue_ABC)
   \<and> posted (snd (handleUploadAll env_second_500 (screen_with queue_ABC))) =
       [request_of ''file:///cache/A.jpg'' ''A.jpg'',
        request_of ''file:///cache/B.jpg'' ''B.jpg'',
        request_of ''file:///cache/C.jpg'' ''C.jpg'']
   \<and> warned (snd (handleUploadAll env_second_500 (screen_with queue_ABC))) =
       [UploadFailedFor ''B.jpg'' 500]
   \<and> \<not> list_all (\<lambda>a. is_response (snd a)) (attempts env_second_rejects 0 queue_ABC)
   \<and> length (posted (snd (handleUploadAll env_second_rejects (screen_with queue_ABC)))) = 2
   \<and> warned (snd (handleUploadAll env_second_rejects (screen_with queue_ABC))) = [UploadError]
   \<and> fst (handleUploadAll env_second_rejects (screen_with queue_ABC)) =
       \<lparr>selectedImages = queue_ABC, isUploading = False, uploadStatus = Some UploadFailed\<rparr>"
proof -
  have a500: "attempts env_second_500 0 queue_ABC =
      [(request_of ''file:///cache/A.jpg'' ''A.jpg'', Resolves 200),
       (request_of ''file:///cache/B.jpg'' ''B.jpg'', Resolves 500),
       (request_of ''file:///cache/C.jpg'' ''C.jpg'', Resolves 200)]"
    by (simp add: env_second_500_def queue_ABC_def attempt_at_def filename_of_last
        upload_request_for_def BACKEND_UPLOAD_URL_def request_of_def)
  have arej: "attempts env_second_rejects 0 queue_ABC =
      [(request_of ''file:///cache/A.jpg'' ''A.jpg'', Resolves 200),
       (request_of ''file:///cache/B.jpg'' ''B.jpg'', Rejects),
       (request_of ''file:///cache/C.jpg'' ''C.jpg'', Resolves 200)]"
    by (simp add: env_second_rejects_def queue_ABC_def attempt_at_def filename_of_last
        upload_request_for_def BACKEND_UPLOAD_URL_def request_of_def)
  have ok200: "response_ok 200" and bad500: "\<not> response_ok 500"
    by (simp_all add: response_ok_def)
  have sel: "selectedImages (screen_with queue_ABC) = queue_ABC"
    by (simp add: screen_with_def)
  have h1: "list_all (\<lambda>a. is_response (snd a)) (attempts env_second_500 0 queue_ABC)"
    by (simp add: a500)
  have h2: "\<not> list_all (\<lambda>a. is_response (snd a)) (attempts env_second_rejects 0 queue_ABC)"
    by (simp add: arej)
  from upload_failure_handling [of env_second_500 "screen_with queue_ABC"] h1
  have p1: "posted (snd (handleUploadAll env_second_500 (screen_with queue_ABC))) =
        map fst (attempts env_second_500 0 queue_ABC)"
    and w1: "warned (snd (handleUploadAll env_second_500 (screen_with queue_ABC))) =
        List.map_filter failure_line (attempts env_second_500 0 queue_ABC)"
    unfolding sel by blast+
  from upload_failure_handling [of env_second_rejects "screen_with queue_ABC"] h2
  have p2: "length (posted (snd (handleUploadAll env_second_rejects (screen_with queue_ABC)))) =
        Suc (length (answered env_second_rejects 0 queue_ABC))"
    and w2: "warned (snd (handleUploadAll env_second_rejects (screen_with queue_ABC))) =
        List.map_filter failure_line (answered env_second_rejects 0 queue_ABC) @ [UploadError]"
    and s2: "fst (handleUploadAll env_second_rejects (screen_with queue_ABC)) =
        (after_user env_second_rejects 0
           (Suc (length (answered env_second_rejects 0 queue_ABC))) (screen_with queue_ABC))
          \<lparr>isUploading := False, uploadStatus := Some UploadFailed\<rparr>"
    unfolding sel by blast+
  have idle: "after_user env_second_rejects i n st = st" for i n st
    by (rule after_user_idle) (simp add: env_second_rejects_def)
  have ans: "answered env_second_rejects 0 queue_ABC =
      [(request_of ''file:///cache/A.jpg'' ''A.jpg'', Resolves 200)]"
    by (simp add: answered_def arej)
  show ?thesis
  proof (intro conjI)
    show "list_all (\<lambda>a. is_response (snd a)) (attempts env_second_500 0 queue_ABC)"
      by (rule h1)
    show "posted (snd (handleUploadAll env_second_500 (screen_with queue_ABC))) =
       [request_of ''file:///cache/A.jpg'' ''A.jpg'',
        request_of ''file:///cache/B.jpg'' ''B.jpg'',
        request_of ''file:///cache/C.jpg'' ''C.jpg'']"
      by (simp add: p1 a500)
    show "warned (snd (handleUploadAll env_second_500 (screen_with queue_ABC))) =
       [UploadFailedFor ''B.jpg'' 500]"
      by (simp add: w1 a500 List.map_filter_simps ok200 bad500 request_of_def)
    show "\<not> list_all (\<lambda>a. is_response (snd a)) (attempts env_second_rejects 0 queue_ABC)"
      by (rule h2)
    show "length (posted (snd (handleUploadAll env_second_rejects (screen_with queue_ABC)))) = 2"
      by (simp add: p2 ans)
    show "warned (snd (handleUploadAll env_second_rejects (screen_with queue_ABC))) = [UploadError]"
      by (simp add: w2 ans List.map_filter_simps ok200)
    show "fst (handleUploadAll env_second_rejects (screen_with queue_ABC)) =
       \<lparr>selectedImages = queue_ABC, isUploading = False, uploadStatus = Some UploadFailed\<rparr>"
      unfolding s2 idle by (simp add: screen_with_def)
  qed
qed

text \<open>
  C2 as stated fails where a POST raises a transport exception. Queue A, B with the POST
  of A rejected: A is posted, B never is; nothing is recorded for A as an item, the log
  holds the one line of the \<^verbatim>\<open>catch\<close> block, and the whole batch is reported failed.
\<close>

theorem upload_rejection_aborts_batch:
  "handleUploadAll env_first_rejects (screen_with queue_AB) =
     (\<lparr>selectedImages = queue_AB, isUploading = False, uploadStatus = Some UploadFailed\<rparr>,
      \<lparr>posted = [request_of ''file:///cache/A.jpg'' ''A.jpg''], warned = [UploadError]\<rparr>)"
  by (simp add: handleUploadAll_def env_first_rejects_def screen_with_def queue_AB_def
      Let_def filename_of_def pop_def upload_request_for_def no_effects_def
      BACKEND_UPLOAD_URL_def request_of_def user_acts_def)

subsection \<open>The queue after a batch\<close>

text \<open>
  C3. The code at an input on which it departs from the claim. The queue holds A alone.
  While the POST of A is pending the user adds B with \<^verbatim>\<open>Upload from Files\<close>, so the
  queue is A, B; the POST is answered 200. Every item of the batch has succeeded, and
  \<^verbatim>\<open>setSelectedImages([])\<close> empties the queue: B, which was never posted, is gone with A,
  under the message that one image was uploaded. Cleared of the items of the batch only,
  the queue would hold B.
\<close>

theorem upload_drops_item_added_meanwhile:
  "selectedImages (after_user env_pick_meanwhile 0 1 (screen_with queue_A))
     = [''file:///cache/A.jpg'', ''file:///cache/B.jpg'']
   \<and> handleUploadAll env_pick_meanwhile (screen_with queue_A) =
       (\<lparr>selectedImages = [], isUploading = False, uploadStatus = Some (UploadedAll 1)\<rparr>,
        \<lparr>posted = [request_of ''file:///cache/A.jpg'' ''A.jpg''], warned = []\<rparr>)"
  by (simp add: handleUploadAll_def env_pick_meanwhile_def screen_with_def queue_A_def
      Let_def filename_of_def pop_def upload_request_for_def response_ok_def no_effects_def
      BACKEND_UPLOAD_URL_def request_of_def user_acts_def handlePickFromFiles_def)

subsection \<open>The tally of a batch\<close>

text \<open>
  C4, as amended. \<open>totalItems\<close> is the number of items of the queue, and the failures of the
  tally are the lines the handler logs. When no POST of the batch raises a transport
  exception, \<open>succeeded + length failedItems = totalItems\<close>. In general the sum counts the
  items that were posted, which is at most \<open>totalItems\<close>: a transport exception ends the
  batch at the item it meets.
\<close>

theorem batch_result_tally:
  "totalItems (batchResult env (selectedImages st)) = length (selectedImages st)
   \<and> failedItems (batchResult env (selectedImages st)) = warned (snd (handleUploadAll env st))
   \<and> succeeded (batchResult env (selectedImages st))
       + length (failedItems (batchResult env (selectedImages st)))
       = length (posted (snd (handleUploadAll env st)))
   \<and> length (posted (snd (handleUploadAll env st))) \<le> totalItems (batchResult env (selectedImages st))
   \<and> (list_all (\<lambda>a. is_response (snd a)) (attempts env 0 (selectedImages st)) \<longrightarrow>
        succeeded (batchResult env (selectedImages st))
          + length (failedItems (batchResult env (selectedImages st)))
          = totalItems (batchResult env (selectedImages st)))"
proof -
  let ?q = "selectedImages st"
  let ?n = "length (answered env 0 ?q)"
  have le: "?n \<le> length ?q" by (rule length_answered_le)
  have tally: "length (filter (\<lambda>a. item_succeeded (snd a)) (answered env 0 ?q))
     + length (List.map_filter failure_line (answered env 0 ?q)) = ?n"
    by (rule tally_of_answered)
  have posted: "length (posted (snd (handleUploadAll env st))) = min (length ?q) (Suc ?n)"
    by (simp add: upload_effects_closed)
  have all: "list_all (\<lambda>a. is_response (snd a)) (attempts env 0 ?q) \<Longrightarrow> ?n = length ?q"
    by (simp add: answered_all)
  show ?thesis
  proof (intro conjI impI)
    show "totalItems (batchResult env ?q) = length ?q"
      by (simp add: batchResult_closed)
  next
    show "failedItems (batchResult env ?q) = warned (snd (handleUploadAll env st))"
      by (simp add: batchResult_closed upload_effects_closed)
  next
    show "succeeded (batchResult env ?q) + length (failedItems (batchResult env ?q))
        = length (posted (snd (handleUploadAll env st)))"
      using tally le by (simp add: batchResult_closed posted)
  next
    show "length (posted (snd (handleUploadAll env st))) \<le> totalItems (batchResult env ?q)"
      by (simp add: batchResult_closed posted)
  next
    assume "list_all (\<lambda>a. is_response (snd a)) (attempts env 0 ?q)"
    from all [OF this] tally
    show "succeeded (batchResult env ?q) + length (failedItems (batchResult env ?q))
        = totalItems (batchResult env ?q)"
      by (simp add: batchResult_closed)
  qed
qed

text \<open>Scenario D: three items, B answered 500. Two succeeded, one line of failure.\<close>

theorem batch_result_tally_witness:
  "list_all (\<lambda>a. is_response (snd a)) (attempts env_second_500 0 queue_ABC)
   \<and> totalItems (batchResult env_second_500 queue_ABC) = 3
   \<and> succeeded (batchResult env_second_500 queue_ABC) = 2
   \<and> failedItems (batchResult env_second_500 queue_ABC) = [UploadFailedFor ''B.jpg'' 500]
   \<and> succeeded (batchResult env_second_500 queue_ABC)
       + length (failedItems (batchResult env_second_500 queue_ABC))
       = totalItems (batchResult env_second_500 queue_ABC)"
proof -
  have ok200: "response_ok 200" and bad500: "\<not> response_ok 500"
    by (simp_all add: response_ok_def)
  have h: "list_all (\<lambda>a. is_response (snd a)) (attempts env_second_500 0 queue_ABC)"
    by (simp add: env_second_500_def queue_ABC_def attempt_at_def)
  have r: "batchResult env_second_500 queue_ABC =
      \<lparr>totalItems = 3, succeeded = 2, failedItems = [UploadFailedFor ''B.jpg'' 500]\<rparr>"
    by (simp add: batchResult_def env_second_500_def queue_ABC_def Let_def filename_of_last
        upload_request_for_def no_effects_def ok200 bad500)
  have sel: "selectedImages (screen_with queue_ABC) = queue_ABC"
    by (simp add: screen_with_def)
  from batch_result_tally [of env_second_500 "screen_with queue_ABC"] h
  have "succeeded (batchResult env_second_500 queue_ABC)
       + length (failedItems (batchResult env_second_500 queue_ABC))
       = totalItems (batchResult env_second_500 queue_ABC)"
    unfolding sel by blast
  moreover have "totalItems (batchResult env_second_500 queue_ABC) = 3"
    "succeeded (batchResult env_second_500 queue_ABC) = 2"
    "failedItems (batchResult env_second_500 queue_ABC) = [UploadFailedFor ''B.jpg'' 500]"
    by (simp_all add: r)
  ultimately show ?thesis
    using h by blast
qed

text \<open>
  C4 as stated fails where a POST raises a transport exception. Queue A, B with the POST
  of A rejected: nothing succeeded and one failure is logged, of two items.
\<close>

theorem batch_result_short_counterexample:
  "batchResult env_first_rejects queue_AB =
     \<lparr>totalItems = 2, succeeded = 0, failedItems = [UploadError]\<rparr>
   \<and> succeeded (batchResult env_first_rejects queue_AB)
       + length (failedItems (batchResult env_first_rejects queue_AB))
       \<noteq> totalItems (batchResult env_first_rejects queue_AB)"
  by (simp add: batchResult_def env_first_rejects_def queue_AB_def Let_def filename_of_last
      upload_request_for_def no_effects_def)

subsection \<open>The empty queue\<close>

text \<open>
  C10. \<^verbatim>\<open>handleUploadAll\<close> on an empty queue is a no-op: it returns at once, no request
  is issued, nothing is logged, and the queue, the uploading flag and the status
  message are what they were.
\<close>

theorem upload_empty_queue_noop:
  "selectedImages st = [] \<Longrightarrow>
     handleUploadAll env st = (st, \<lparr>posted = [], warned = []\<rparr>)"
  by (simp add: handleUploadAll_def no_effects_def)

text \<open>An empty queue whose last batch had failed: the message stays.\<close>

theorem upload_empty_queue_noop_witness:
  "selectedImages \<lparr>selectedImages = [], isUploading = False,
                   uploadStatus = Some AllUploadsFailed\<rparr> = []
   \<and> handleUploadAll env_all_ok
        \<lparr>selectedImages = [], isUploading = False, uploadStatus = Some AllUploadsFailed\<rparr>
      = (\<lparr>selectedImages = [], isUploading = False, uploadStatus = Some AllUploadsFailed\<rparr>,
         \<lparr>posted = [], warned = []\<rparr>)"
  using upload_empty_queue_noop
    [of "\<lparr>selectedImages = [], isUploading = False, uploadStatus = Some AllUploadsFailed\<rparr>"
        env_all_ok]
  by simp

section \<open>Properties of the session\<close>

subsection \<open>What each effect leaves alone\<close>

lemma load_token_resolves: "fst (load_token env w) = Resolves ()"
  by (simp add: load_token_def Let_def)


lemma load_token_trace:
  "network (snd (load_token env w)) = network w"
  "secureStore (snd (load_token env w)) = secureStore w"
  "loading (snd (load_token env w)) = False"
  by (simp_all add: load_token_def getItemAsync_def Let_def split: option.splits)

lemma load_token_authState:
  "authState (snd (load_token env w)) =
     (if getItem_rejects env then authState w
      else (case secureStore w ''accessToken'' of
              None \<Rightarrow> authState w
            | Some t \<Rightarrow> if t \<noteq> [] then Some \<lparr>accessToken = t, displayName = None,
                                              givenName = None, surname = None\<rparr>
                        else authState w))"
  by (simp add: load_token_def getItemAsync_def Let_def split: option.splits)


lemma snd_catch:
  "snd (case p of (Rejects, w1) \<Rightarrow> (Resolves (), f w1) | (Resolves u, w1) \<Rightarrow> (Resolves (), w1))
      = (case fst p of Rejects \<Rightarrow> f (snd p) | Resolves u \<Rightarrow> snd p)"
  for p :: "unit settled \<times> app"
  by (cases p) (simp split: settled.splits)

lemma handle_response_resolves:
  "fst (handle_response cfg env resp disc req redirect w) = Resolves ()"
  by (simp add: handle_response_def split: option.splits prod.splits settled.splits)


lemma signIn_gate:
  "autoStarted (snd (signIn env req w)) = autoStarted w"
  "loading (snd (signIn env req w)) = loading w"
  "authState (snd (signIn env req w)) = authState w"
  by (simp_all add: signIn_def split: option.splits)

lemma signOut_gate:
  "autoStarted (snd (signOut env w)) = autoStarted w"
  "prompts (snd (signOut env w)) = prompts w"
  "unready_warnings (snd (signOut env w)) = unready_warnings w"
  "loading (snd (signOut env w)) = loading w"
  "authState (snd (signOut env w)) = None"
  by (simp_all add: signOut_def deleteItemAsync_def unready_warnings_def)





lemma gate_effect_keeps:
  "loading (auth_gate_effect env req w) = loading w"
  "authState (auth_gate_effect env req w) = authState w"
  "secureStore (auth_gate_effect env req w) = secureStore w"
  by (simp_all add: auth_gate_effect_def signIn_def split: option.splits)


lemma session_Unauthenticated:
  "session w = Unauthenticated \<longleftrightarrow> \<not> loading w \<and> authState w = None"
  by (simp add: session_def split: option.splits)

lemma session_Authenticated:
  "session w = Authenticated a \<longleftrightarrow> \<not> loading w \<and> authState w = Some a"
  by (simp add: session_def split: option.splits)

subsection \<open>The example states\<close>

lemmas platform_defs =
  platform_ok_def platform_profile_down_def platform_profile_garbled_def
  platform_empty_token_def platform_store_broken_def platform_write_fails_def

lemma signed_out_eq:
  "signed_out =
     \<lparr>authState = None, loading = False, autoStarted = True, secureStore = Map.empty,
      network = [Discovery ''https://login.microsoftonline.com/contoso/v2.0''],
      console = [], prompts = 1\<rparr>"
  by (simp add: signed_out_def run_def step_def tick_of_def load_token_def getItemAsync_def
      Let_def auth_gate_effect_def signIn_def mounted_def discovery_issuer_def cfg_full_def
      platform_ok_def)

lemma signed_in_eq:
  "signed_in =
     \<lparr>authState = Some \<lparr>accessToken = ''abc123'', displayName = None, givenName = None,
                         surname = None\<rparr>,
      loading = False, autoStarted = False, secureStore = store_abc123,
      network = [Discovery ''https://login.microsoftonline.com/contoso/v2.0''],
      console = [], prompts = 0\<rparr>"
  by (simp add: signed_in_def run_def step_def tick_of_def load_token_def getItemAsync_def
      Let_def auth_gate_effect_def mounted_def discovery_issuer_def cfg_full_def
      platform_ok_def store_abc123_def)


lemmas example_defs =
  cfg_full_def cfg_absent_def cfg_no_client_def disc0_def req0_def success0_def redirect0_def
  store_abc123_def store_blank_def signed_out_eq signed_in_eq profile_ada_def

subsection \<open>Restore on start\<close>

text \<open>
  C7. Restore on start, from the state of the first render (no \<open>authState\<close>). The load
  effect never rejects. It makes no network call. When the read succeeds and the store
  holds a non-empty token, the session is \<open>Authenticated\<close> with exactly that token and no
  profile field. When the store holds no token, or the read fails, the session is
  \<open>Unauthenticated\<close>.
\<close>

theorem restore_on_start:
  assumes "authState w = None"
  shows "fst (load_token env w) = Resolves ()
     \<and> network (snd (load_token env w)) = network w
     \<and> (\<not> getItem_rejects env \<and> secureStore w ''accessToken'' = Some t \<and> t \<noteq> [] \<longrightarrow>
          session (snd (load_token env w)) =
            Authenticated \<lparr>accessToken = t, displayName = None, givenName = None,
                           surname = None\<rparr>)
     \<and> (getItem_rejects env \<or> secureStore w ''accessToken'' = None \<longrightarrow>
          session (snd (load_token env w)) = Unauthenticated)"
  using assms
  by (auto simp add: load_token_resolves load_token_trace load_token_authState
      session_Unauthenticated session_Authenticated)

text \<open>
  Scenario B of the specification (the store holds \<open>abc123\<close>), an empty store, and a store
  whose read rejects.
\<close>

theorem restore_on_start_witness:
  "authState (mounted cfg_full store_abc123) = None
   \<and> \<not> getItem_rejects platform_ok
   \<and> secureStore (mounted cfg_full store_abc123) ''accessToken'' = Some ''abc123''
   \<and> session (snd (load_token platform_ok (mounted cfg_full store_abc123))) =
       Authenticated \<lparr>accessToken = ''abc123'', displayName = None, givenName = None,
                      surname = None\<rparr>
   \<and> network (snd (load_token platform_ok (mounted cfg_full store_abc123))) =
       network (mounted cfg_full store_abc123)
   \<and> fst (load_token platform_ok (mounted cfg_full store_abc123)) = Resolves ()
   \<and> secureStore (mounted cfg_full Map.empty) ''accessToken'' = None
   \<and> session (snd (load_token platform_ok (mounted cfg_full Map.empty))) = Unauthenticated
   \<and> getItem_rejects platform_store_broken
   \<and> session (snd (load_token platform_store_broken (mounted cfg_full store_abc123))) =
       Unauthenticated"
proof -
  have m: "authState (mounted cfg_full store) = None" for store
    by (simp add: mounted_def)
  have h1: "\<not> getItem_rejects platform_ok"
    "secureStore (mounted cfg_full store_abc123) ''accessToken'' = Some ''abc123''"
    "''abc123'' \<noteq> []"
    by (simp_all add: platform_ok_def mounted_def store_abc123_def)
  have h2: "secureStore (mounted cfg_full Map.empty) ''accessToken'' = None"
    by (simp add: mounted_def)
  have h3: "getItem_rejects platform_store_broken"
    by (simp add: platform_defs)
  note r1 = restore_on_start [OF m, of platform_ok store_abc123 "''abc123''"]
  note r2 = restore_on_start [OF m, of platform_ok Map.empty "''abc123''"]
  note r3 = restore_on_start [OF m, of platform_store_broken store_abc123 "''abc123''"]
  from r1 h1 have c1:
    "session (snd (load_token platform_ok (mounted cfg_full store_abc123))) =
       Authenticated \<lparr>accessToken = ''abc123'', displayName = None, givenName = None,
                      surname = None\<rparr>"
    "network (snd (load_token platform_ok (mounted cfg_full store_abc123))) =
       network (mounted cfg_full store_abc123)"
    "fst (load_token platform_ok (mounted cfg_full store_abc123)) = Resolves ()"
    by blast+
  from r2 h2 have c2:
    "session (snd (load_token platform_ok (mounted cfg_full Map.empty))) = Unauthenticated"
    by blast
  from r3 h3 have c3:
    "session (snd (load_token platform_store_broken (mounted cfg_full store_abc123))) =
       Unauthenticated"
    by blast
  from m [of store_abc123] h1(1,2) c1 h2 c2 h3 c3 show ?thesis
    by blast
qed

subsection \<open>Empty and absent tokens\<close>

lemma exchange_and_store_authState:
  "authState (snd (exchange_and_store cfg env code d req redirect w)) = authState w
   \<or> (\<exists>a. authState (snd (exchange_and_store cfg env code d req redirect w)) = Some a
          \<and> accessToken a \<noteq> [])"
  by (simp add: exchange_and_store_def setItemAsync_def Let_def
      split: settled.splits option.splits parsed_body.splits)

lemma handle_response_authState:
  "authState (snd (handle_response cfg env resp disc req redirect w)) = authState w
   \<or> (\<exists>a. authState (snd (handle_response cfg env resp disc req redirect w)) = Some a
          \<and> accessToken a \<noteq> [])"
proof (cases "\<exists>r d. resp = Some r \<and> result_type r = ''success'' \<and> disc = Some d")
  case False
  then show ?thesis
    by (auto simp add: handle_response_def split: option.splits)
next
  case True
  then obtain r d where rd: "resp = Some r" "result_type r = ''success''" "disc = Some d"
    by blast
  show ?thesis
    using exchange_and_store_authState [of cfg env "params_code r" d req redirect w]
    by (auto simp add: handle_response_def rd snd_catch split: settled.splits)
qed

lemma handle_token_present: "token_present w \<Longrightarrow> token_present (handle cfg e w)"
proof (cases e)
  case (LoadToken env)
  assume "token_present w"
  then show ?thesis
    by (simp add: LoadToken token_present_def load_token_authState split: option.splits)
next
  case (Response env resp disc req redirect)
  assume "token_present w"
  then show ?thesis
    using handle_response_authState [of cfg env resp disc req redirect w]
    by (auto simp add: Response token_present_def split: option.splits)
next
  case (PressSignIn env req)
  assume "token_present w"
  then show ?thesis
    by (simp add: PressSignIn token_present_def signIn_gate)
next
  case (PressSignOut env)
  then show ?thesis
    by (simp add: token_present_def signOut_gate)
next
  case Rerender
  assume "token_present w"
  then show ?thesis by (simp add: Rerender)
qed

lemma step_token_present: "token_present w \<Longrightarrow> token_present (step cfg w t)"
  using handle_token_present [of w cfg "happening t"]
  by (simp add: step_def token_present_def gate_effect_keeps)

lemma run_Nil: "run cfg [] w = w"
  by (simp add: run_def)

lemma run_snoc: "run cfg (ts @ [t]) w = step cfg (run cfg ts w) t"
  by (simp add: run_def)

lemma run_token_present: "token_present w \<Longrightarrow> token_present (run cfg ts w)"
  by (induction ts rule: rev_induct) (simp_all add: run_Nil run_snoc step_token_present)

lemma exchange_no_token:
  assumes "exchangeCodeAsync env (exchangeConfig cfg code req redirect) d = Resolves tok"
    and "tok = None \<or> tok = Some []"
  shows "exchange_and_store cfg env code d req redirect w =
           (Resolves (), w\<lparr>network := network w @
              [TokenExchange (exchangeConfig cfg code req redirect) d]\<rparr>)"
  using assms by (auto simp add: exchange_and_store_def Let_def)

text \<open>
  C6. An empty or absent access token is no session. On restore, a store that holds no
  token or the empty string leaves the session \<open>Unauthenticated\<close>. In the response
  effect, a token response whose \<open>accessToken\<close> is absent or empty leaves \<open>authState\<close> and
  the secure store as they were. And in every state the application can reach from its
  first render, whatever happens and whatever the platform does, an \<open>Authenticated\<close>
  session holds a non-empty token.
\<close>

theorem empty_token_is_no_session:
  "(authState w = None \<and>
      (secureStore w ''accessToken'' = None \<or> secureStore w ''accessToken'' = Some []) \<longrightarrow>
        session (snd (load_token env w)) = Unauthenticated)
   \<and> (exchangeCodeAsync env' (exchangeConfig cfg (params_code r) req redirect) d = Resolves tok
        \<and> (tok = None \<or> tok = Some []) \<longrightarrow>
        authState (snd (handle_response cfg env' (Some r) (Some d) req redirect w')) = authState w'
        \<and> secureStore (snd (handle_response cfg env' (Some r) (Some d) req redirect w'))
            = secureStore w')
   \<and> (session (run cfg ts (mounted cfg store)) = Authenticated a \<longrightarrow> accessToken a \<noteq> [])"
proof (intro conjI impI)
  assume "authState w = None \<and>
      (secureStore w ''accessToken'' = None \<or> secureStore w ''accessToken'' = Some [])"
  then show "session (snd (load_token env w)) = Unauthenticated"
    by (auto simp add: session_Unauthenticated load_token_trace load_token_authState)
next
  assume a: "exchangeCodeAsync env' (exchangeConfig cfg (params_code r) req redirect) d = Resolves tok
        \<and> (tok = None \<or> tok = Some [])"
  then have x: "exchange_and_store cfg env' (params_code r) d req redirect w' =
      (Resolves (), w'\<lparr>network := network w' @
              [TokenExchange (exchangeConfig cfg (params_code r) req redirect) d]\<rparr>)"
    using exchange_no_token by blast
  show "authState (snd (handle_response cfg env' (Some r) (Some d) req redirect w')) = authState w'"
    by (simp add: handle_response_def x)
  show "secureStore (snd (handle_response cfg env' (Some r) (Some d) req redirect w'))
            = secureStore w'"
    by (simp add: handle_response_def x)
next
  assume s: "session (run cfg ts (mounted cfg store)) = Authenticated a"
  have "token_present (mounted cfg store)"
    by (simp add: token_present_def mounted_def)
  then have "token_present (run cfg ts (mounted cfg store))"
    by (rule run_token_present)
  with s show "accessToken a \<noteq> []"
    by (simp add: session_Authenticated token_present_def)
qed

text \<open>
  A store that holds the empty string; an exchange that returns the empty string; and
  the restored session of scenario B, whose token is not empty.
\<close>

theorem empty_token_is_no_session_witness:
  "authState (mounted cfg_full store_blank) = None
   \<and> secureStore (mounted cfg_full store_blank) ''accessToken'' = Some []
   \<and> session (snd (load_token platform_ok (mounted cfg_full store_blank))) = Unauthenticated
   \<and> exchangeCodeAsync platform_empty_token
         (exchangeConfig cfg_full (params_code success0) (Some req0) redirect0) disc0
       = Resolves (Some [])
   \<and> authState (snd (handle_response cfg_full platform_empty_token (Some success0)
                        (Some disc0) (Some req0) redirect0 signed_out)) = None
   \<and> secureStore (snd (handle_response cfg_full platform_empty_token (Some success0)
                        (Some disc0) (Some req0) redirect0 signed_out)) ''accessToken'' = None
   \<and> session (run cfg_full [tick_of (LoadToken platform_ok)] (mounted cfg_full store_abc123))
       = Authenticated \<lparr>accessToken = ''abc123'', displayName = None, givenName = None,
                        surname = None\<rparr>
   \<and> accessToken \<lparr>accessToken = ''abc123'', displayName = None, givenName = None,
                   surname = None\<rparr> \<noteq> []"
proof -
  let ?a = "\<lparr>accessToken = ''abc123'', displayName = None, givenName = None, surname = None\<rparr>"
  note T = empty_token_is_no_session
    [where w = "mounted cfg_full store_blank" and env = platform_ok
       and env' = platform_empty_token and cfg = cfg_full and r = success0
       and req = "Some req0" and redirect = redirect0 and d = disc0 and tok = "Some []"
       and w' = signed_out and ts = "[tick_of (LoadToken platform_ok)]"
       and store = store_abc123 and a = ?a]
  have h1: "authState (mounted cfg_full store_blank) = None"
    "secureStore (mounted cfg_full store_blank) ''accessToken'' = Some []"
    by (simp_all add: mounted_def store_blank_def)
  have h2: "exchangeCodeAsync platform_empty_token
         (exchangeConfig cfg_full (params_code success0) (Some req0) redirect0) disc0
       = Resolves (Some [])"
    by (simp add: platform_defs)
  have h3: "session (run cfg_full [tick_of (LoadToken platform_ok)] (mounted cfg_full store_abc123))
       = Authenticated ?a"
    by (simp add: run_def step_def tick_of_def load_token_def getItemAsync_def Let_def
        auth_gate_effect_def session_def mounted_def store_abc123_def platform_ok_def)
  from T h1 have c1:
    "session (snd (load_token platform_ok (mounted cfg_full store_blank))) = Unauthenticated"
    by blast
  from T h2 have c2:
    "authState (snd (handle_response cfg_full platform_empty_token (Some success0)
        (Some disc0) (Some req0) redirect0 signed_out)) = authState signed_out"
    "secureStore (snd (handle_response cfg_full platform_empty_token (Some success0)
        (Some disc0) (Some req0) redirect0 signed_out)) = secureStore signed_out"
    by blast+
  from T h3 have c3: "accessToken ?a \<noteq> []"
    by blast
  show ?thesis
    using h1 h2 h3 c1 c3
    by (simp add: c2) (simp add: signed_out_eq)
qed

subsection \<open>Failure of the profile GET\<close>

text \<open>
  C1, as amended. The response is a success, discovery is there, and the exchange returns
  a non-empty token. If the profile GET then fails (the \<^verbatim>\<open>fetch\<close> rejects, the body does
  not parse, or it parses to \<^verbatim>\<open>null\<close>), the effect itself does not reject, but the sign-in
  does not complete: \<open>authState\<close> and the secure store stay as they were, and the failure
  is logged as a token exchange error. The same holds when the body parses but the write
  of the token to the secure store rejects: the write comes before \<^verbatim>\<open>setAuthState\<close>, so
  no session is created and nothing is stored. Only when the body parses and the write
  succeeds is the session created, with the token and the profile fields of the body, and
  the token stored.
\<close>

theorem profile_failure_aborts_sign_in:
  assumes "result_type r = ''success''"
    and "exchangeCodeAsync env (exchangeConfig cfg (params_code r) req redirect) d
           = Resolves (Some token)"
    and "token \<noteq> []"
  shows
    "(fetch_me env (''Bearer '' @ token) = Rejects
        \<or> fetch_me env (''Bearer '' @ token) = Resolves Rejects
        \<or> fetch_me env (''Bearer '' @ token) = Resolves (Resolves JsonNull) \<longrightarrow>
       fst (handle_response cfg env (Some r) (Some d) req redirect w) = Resolves ()
       \<and> authState (snd (handle_response cfg env (Some r) (Some d) req redirect w))
           = authState w
       \<and> secureStore (snd (handle_response cfg env (Some r) (Some d) req redirect w))
           = secureStore w
       \<and> console (snd (handle_response cfg env (Some r) (Some d) req redirect w))
           = console w @ [WarnTokenExchangeError])
     \<and> (fetch_me env (''Bearer '' @ token) = Resolves (Resolves (JsonValue p))
        \<and> \<not> setItem_rejects env \<longrightarrow>
       authState (snd (handle_response cfg env (Some r) (Some d) req redirect w))
           = Some \<lparr>accessToken = token, displayName = profile_displayName p,
                   givenName = profile_givenName p, surname = profile_surname p\<rparr>
       \<and> secureStore (snd (handle_response cfg env (Some r) (Some d) req redirect w))
           ''accessToken'' = Some token)
     \<and> (fetch_me env (''Bearer '' @ token) = Resolves (Resolves (JsonValue p))
        \<and> setItem_rejects env \<longrightarrow>
       fst (handle_response cfg env (Some r) (Some d) req redirect w) = Resolves ()
       \<and> authState (snd (handle_response cfg env (Some r) (Some d) req redirect w))
           = authState w
       \<and> secureStore (snd (handle_response cfg env (Some r) (Some d) req redirect w))
           = secureStore w
       \<and> console (snd (handle_response cfg env (Some r) (Some d) req redirect w))
           = console w @ [LogSignedInAs (profile_givenName p) (profile_surname p),
                          WarnTokenExchangeError])"
proof (intro conjI impI)
  assume f: "fetch_me env (''Bearer '' @ token) = Rejects
        \<or> fetch_me env (''Bearer '' @ token) = Resolves Rejects
        \<or> fetch_me env (''Bearer '' @ token) = Resolves (Resolves JsonNull)"
  let ?w2 = "w\<lparr>network := network w @
      [TokenExchange (exchangeConfig cfg (params_code r) req redirect) d,
       ProfileGet ''https://graph.microsoft.com/v1.0/me'' (''Bearer '' @ token)]\<rparr>"
  from f assms have x: "exchange_and_store cfg env (params_code r) d req redirect w = (Rejects, ?w2)"
    by (auto simp add: exchange_and_store_def Let_def)
  show "fst (handle_response cfg env (Some r) (Some d) req redirect w) = Resolves ()"
    by (rule handle_response_resolves)
  show "authState (snd (handle_response cfg env (Some r) (Some d) req redirect w)) = authState w"
    by (simp add: handle_response_def assms(1) x)
  show "secureStore (snd (handle_response cfg env (Some r) (Some d) req redirect w))
      = secureStore w"
    by (simp add: handle_response_def assms(1) x)
  show "console (snd (handle_response cfg env (Some r) (Some d) req redirect w))
      = console w @ [WarnTokenExchangeError]"
    by (simp add: handle_response_def assms(1) x)
next
  assume f: "fetch_me env (''Bearer '' @ token) = Resolves (Resolves (JsonValue p))
        \<and> \<not> setItem_rejects env"
  with assms have x: "fst (exchange_and_store cfg env (params_code r) d req redirect w) = Resolves ()"
    "authState (snd (exchange_and_store cfg env (params_code r) d req redirect w)) =
       Some \<lparr>accessToken = token, displayName = profile_displayName p,
                   givenName = profile_givenName p, surname = profile_surname p\<rparr>"
    "secureStore (snd (exchange_and_store cfg env (params_code r) d req redirect w))
       ''accessToken'' = Some token"
    by (simp_all add: exchange_and_store_def setItemAsync_def Let_def)
  show "authState (snd (handle_response cfg env (Some r) (Some d) req redirect w))
      = Some \<lparr>accessToken = token, displayName = profile_displayName p,
                   givenName = profile_givenName p, surname = profile_surname p\<rparr>"
    using x by (simp add: handle_response_def assms(1) snd_catch)
  show "secureStore (snd (handle_response cfg env (Some r) (Some d) req redirect w))
      ''accessToken'' = Some token"
    using x by (simp add: handle_response_def assms(1) snd_catch)
next
  assume f: "fetch_me env (''Bearer '' @ token) = Resolves (Resolves (JsonValue p))
        \<and> setItem_rejects env"
  let ?w3 = "w\<lparr>network := network w @
      [TokenExchange (exchangeConfig cfg (params_code r) req redirect) d,
       ProfileGet ''https://graph.microsoft.com/v1.0/me'' (''Bearer '' @ token)],
      console := console w @ [LogSignedInAs (profile_givenName p) (profile_surname p)]\<rparr>"
  from f assms have x: "exchange_and_store cfg env (params_code r) d req redirect w = (Rejects, ?w3)"
    by (simp add: exchange_and_store_def setItemAsync_def Let_def)
  show "fst (handle_response cfg env (Some r) (Some d) req redirect w) = Resolves ()"
    by (rule handle_response_resolves)
  show "authState (snd (handle_response cfg env (Some r) (Some d) req redirect w)) = authState w"
    by (simp add: handle_response_def assms(1) x)
  show "secureStore (snd (handle_response cfg env (Some r) (Some d) req redirect w))
      = secureStore w"
    by (simp add: handle_response_def assms(1) x)
  show "console (snd (handle_response cfg env (Some r) (Some d) req redirect w))
      = console w @ [LogSignedInAs (profile_givenName p) (profile_surname p),
                     WarnTokenExchangeError]"
    by (simp add: handle_response_def assms(1) x)
qed

text \<open>
  A profile body that does not parse, met while signed out: still signed out, nothing
  stored. The platform on which everything works: a session with the three profile
  fields, the token stored. And a store that rejects the write, the profile parsed: still
  signed out, nothing stored.
\<close>

theorem profile_failure_aborts_sign_in_witness:
  "result_type success0 = ''success''
   \<and> exchangeCodeAsync platform_profile_garbled
         (exchangeConfig cfg_full (params_code success0) (Some req0) redirect0) disc0
       = Resolves (Some ''tok1'')
   \<and> fetch_me platform_profile_garbled (''Bearer '' @ ''tok1'') = Resolves Rejects
   \<and> authState (snd (handle_response cfg_full platform_profile_garbled (Some success0)
                        (Some disc0) (Some req0) redirect0 signed_out)) = None
   \<and> secureStore (snd (handle_response cfg_full platform_profile_garbled (Some success0)
                        (Some disc0) (Some req0) redirect0 signed_out)) ''accessToken'' = None
   \<and> console (snd (handle_response cfg_full platform_profile_garbled (Some success0)
                        (Some disc0) (Some req0) redirect0 signed_out))
       = [WarnTokenExchangeError]
   \<and> fetch_me platform_ok (''Bearer '' @ ''tok1'') = Resolves (Resolves (JsonValue profile_ada))
   \<and> \<not> setItem_rejects platform_ok
   \<and> authState (snd (handle_response cfg_full platform_ok (Some success0)
                        (Some disc0) (Some req0) redirect0 signed_out))
       = Some \<lparr>accessToken = ''tok1'', displayName = Some ''Ada Lovelace'',
               givenName = Some ''Ada'', surname = Some ''Lovelace''\<rparr>
   \<and> secureStore (snd (handle_response cfg_full platform_ok (Some success0)
                        (Some disc0) (Some req0) redirect0 signed_out)) ''accessToken''
       = Some ''tok1''
   \<and> fetch_me platform_write_fails (''Bearer '' @ ''tok1'')
       = Resolves (Resolves (JsonValue profile_ada))
   \<and> setItem_rejects platform_write_fails
   \<and> authState (snd (handle_response cfg_full platform_write_fails (Some success0)
                        (Some disc0) (Some req0) redirect0 signed_out)) = None
   \<and> secureStore (snd (handle_response cfg_full platform_write_fails (Some success0)
                        (Some disc0) (Some req0) redirect0 signed_out)) ''accessToken'' = None
   \<and> console (snd (handle_response cfg_full platform_write_fails (Some success0)
                        (Some disc0) (Some req0) redirect0 signed_out))
       = [LogSignedInAs (Some ''Ada'') (Some ''Lovelace''), WarnTokenExchangeError]"
proof -
  have s: "result_type success0 = ''success''"
    by (simp add: success0_def)
  have x1: "exchangeCodeAsync platform_profile_garbled
         (exchangeConfig cfg_full (params_code success0) (Some req0) redirect0) disc0
       = Resolves (Some ''tok1'')"
    and x2: "exchangeCodeAsync platform_ok
         (exchangeConfig cfg_full (params_code success0) (Some req0) redirect0) disc0
       = Resolves (Some ''tok1'')"
    by (simp_all add: platform_defs)
  have t: "''tok1'' \<noteq> []" by simp
  have f1: "fetch_me platform_profile_garbled (''Bearer '' @ ''tok1'') = Resolves Rejects"
    and f2: "fetch_me platform_ok (''Bearer '' @ ''tok1'') = Resolves (Resolves (JsonValue profile_ada))"
    and f3: "\<not> setItem_rejects platform_ok"
    by (simp_all add: platform_defs)
  note g = profile_failure_aborts_sign_in [OF s x1 t, where p = profile_ada and w = signed_out]
  note k = profile_failure_aborts_sign_in [OF s x2 t, where p = profile_ada and w = signed_out]
  from g f1 have c1:
    "authState (snd (handle_response cfg_full platform_profile_garbled (Some success0)
        (Some disc0) (Some req0) redirect0 signed_out)) = authState signed_out"
    "secureStore (snd (handle_response cfg_full platform_profile_garbled (Some success0)
        (Some disc0) (Some req0) redirect0 signed_out)) = secureStore signed_out"
    "console (snd (handle_response cfg_full platform_profile_garbled (Some success0)
        (Some disc0) (Some req0) redirect0 signed_out)) = console signed_out @ [WarnTokenExchangeError]"
    by blast+
  from k f2 f3 have c2:
    "authState (snd (handle_response cfg_full platform_ok (Some success0)
        (Some disc0) (Some req0) redirect0 signed_out))
       = Some \<lparr>accessToken = ''tok1'', displayName = profile_displayName profile_ada,
               givenName = profile_givenName profile_ada, surname = profile_surname profile_ada\<rparr>"
    "secureStore (snd (handle_response cfg_full platform_ok (Some success0)
        (Some disc0) (Some req0) redirect0 signed_out)) ''accessToken'' = Some ''tok1''"
    by blast+
  have x3: "exchangeCodeAsync platform_write_fails
         (exchangeConfig cfg_full (params_code success0) (Some req0) redirect0) disc0
       = Resolves (Some ''tok1'')"
    and f4: "fetch_me platform_write_fails (''Bearer '' @ ''tok1'')
       = Resolves (Resolves (JsonValue profile_ada))"
    and f5: "setItem_rejects platform_write_fails"
    by (simp_all add: platform_defs)
  note m = profile_failure_aborts_sign_in [OF s x3 t, where p = profile_ada and w = signed_out]
  from m f4 f5 have c3:
    "authState (snd (handle_response cfg_full platform_write_fails (Some success0)
        (Some disc0) (Some req0) redirect0 signed_out)) = authState signed_out"
    "secureStore (snd (handle_response cfg_full platform_write_fails (Some success0)
        (Some disc0) (Some req0) redirect0 signed_out)) = secureStore signed_out"
    "console (snd (handle_response cfg_full platform_write_fails (Some success0)
        (Some disc0) (Some req0) redirect0 signed_out))
       = console signed_out @ [LogSignedInAs (profile_givenName profile_ada)
                                 (profile_surname profile_ada), WarnTokenExchangeError]"
    by blast+
  show ?thesis
    using s x1 f1 f2 f3 f4 f5
    by (simp add: c1 c2 c3) (simp add: signed_out_eq profile_ada_def)
qed

text \<open>
  C1 as stated fails (scenario C of the specification). The exchange returns \<open>tok1\<close>, the
  profile GET rejects: the session is \<open>Unauthenticated\<close>, not the token-only session, and
  \<open>tok1\<close> is not in the store.
\<close>

theorem profile_failure_fails_sign_in:
  "exchangeCodeAsync platform_profile_down
       (exchangeConfig cfg_full (params_code success0) (Some req0) redirect0) disc0
     = Resolves (Some ''tok1'')
   \<and> fetch_me platform_profile_down ''Bearer tok1'' = Rejects
   \<and> session (snd (handle_response cfg_full platform_profile_down (Some success0) (Some disc0)
                     (Some req0) redirect0 signed_out)) = Unauthenticated
   \<and> authState (snd (handle_response cfg_full platform_profile_down (Some success0) (Some disc0)
                     (Some req0) redirect0 signed_out)) = None
   \<and> secureStore (snd (handle_response cfg_full platform_profile_down (Some success0)
                     (Some disc0) (Some req0) redirect0 signed_out)) ''accessToken'' = None
   \<and> console (snd (handle_response cfg_full platform_profile_down (Some success0) (Some disc0)
                     (Some req0) redirect0 signed_out)) = [WarnTokenExchangeError]"
  by (simp add: handle_response_def exchange_and_store_def exchangeConfig_def Let_def
      platform_defs example_defs session_def)

subsection \<open>Sign-out\<close>

text \<open>
  C9, as amended. \<^verbatim>\<open>signOut\<close> removes the session in memory first, so the session is
  \<open>Unauthenticated\<close> afterwards whether or not the store could be wiped. The error of the
  delete is not swallowed: when \<^verbatim>\<open>deleteItemAsync\<close> rejects, the promise of \<^verbatim>\<open>signOut\<close>
  rejects and the store keeps what it held. When it does not reject, \<^verbatim>\<open>signOut\<close> resolves
  and the token is gone from the store.
\<close>

theorem sign_out_clears_session:
  "authState (snd (signOut env w)) = None
   \<and> (\<not> loading w \<longrightarrow> session (snd (signOut env w)) = Unauthenticated)
   \<and> (deleteItem_rejects env \<longrightarrow>
        fst (signOut env w) = Rejects \<and> secureStore (snd (signOut env w)) = secureStore w)
   \<and> (\<not> deleteItem_rejects env \<longrightarrow>
        fst (signOut env w) = Resolves ()
        \<and> secureStore (snd (signOut env w)) ''accessToken'' = None)"
  by (simp add: signOut_def deleteItemAsync_def session_Unauthenticated)

text \<open>Signing out of the restored session, on a working store and on a broken one.\<close>

theorem sign_out_clears_session_witness:
  "\<not> loading signed_in
   \<and> session (snd (signOut platform_ok signed_in)) = Unauthenticated
   \<and> \<not> deleteItem_rejects platform_ok
   \<and> fst (signOut platform_ok signed_in) = Resolves ()
   \<and> secureStore (snd (signOut platform_ok signed_in)) ''accessToken'' = None
   \<and> deleteItem_rejects platform_store_broken
   \<and> session (snd (signOut platform_store_broken signed_in)) = Unauthenticated
   \<and> fst (signOut platform_store_broken signed_in) = Rejects
   \<and> secureStore (snd (signOut platform_store_broken signed_in)) = secureStore signed_in"
proof -
  have h: "\<not> loading signed_in" "\<not> deleteItem_rejects platform_ok"
    "deleteItem_rejects platform_store_broken"
    by (simp_all add: signed_in_eq platform_defs)
  from sign_out_clears_session [of platform_ok signed_in] h
  have c1: "session (snd (signOut platform_ok signed_in)) = Unauthenticated"
    "fst (signOut platform_ok signed_in) = Resolves ()"
    "secureStore (snd (signOut platform_ok signed_in)) ''accessToken'' = None"
    by blast+
  from sign_out_clears_session [of platform_store_broken signed_in] h
  have c2: "session (snd (signOut platform_store_broken signed_in)) = Unauthenticated"
    "fst (signOut platform_store_broken signed_in) = Rejects"
    "secureStore (snd (signOut platform_store_broken signed_in)) = secureStore signed_in"
    by blast+
  from h c1 c2 show ?thesis by blast
qed

text \<open>
  C9 as stated fails in one part: the store rejects the delete, and \<^verbatim>\<open>signOut\<close> rejects
  with it. The session in memory is gone all the same; the token is still in the store.
\<close>

theorem sign_out_error_not_swallowed:
  "deleteItem_rejects platform_store_broken
   \<and> fst (signOut platform_store_broken signed_in) = Rejects
   \<and> authState (snd (signOut platform_store_broken signed_in)) = None
   \<and> secureStore (snd (signOut platform_store_broken signed_in)) ''accessToken''
       = Some ''abc123''"
  by (simp add: signOut_def deleteItemAsync_def platform_defs signed_in_eq store_abc123_def)

subsection \<open>Absent configuration\<close>

text \<open>
  C5, as amended. An absent (or empty) tenant identifier is not an error at startup:
  discovery is requested for the issuer \<open>undefined\<close>. An absent client identifier is
  replaced by the empty string in the authorization request and in the token exchange,
  and the exchange is still attempted on a success response. For every configuration
  the startup load resolves, ends \<open>Initializing\<close>, logs nothing but a failed read of the
  store, and restores what it would restore under any other configuration.
\<close>

theorem absent_config_is_deferred:
  "(TENANT_ID cfg = None \<or> TENANT_ID cfg = Some [] \<longrightarrow>
      network (snd (load_token env (mounted cfg store))) = [Discovery ''undefined''])
   \<and> (CLIENT_ID cfg = None \<longrightarrow>
      clientId (authRequestConfig cfg redirect) = []
      \<and> exchange_clientId (exchangeConfig cfg code req redirect) = [])
   \<and> (CLIENT_ID cfg = None \<and> result_type r = ''success'' \<longrightarrow>
      take (Suc (length (network w)))
        (network (snd (handle_response cfg env (Some r) (Some d) req redirect w)))
      = network w @ [TokenExchange (exchangeConfig cfg (params_code r) req redirect) d])
   \<and> fst (load_token env (mounted cfg store)) = Resolves ()
   \<and> loading (snd (load_token env (mounted cfg store))) = False
   \<and> console (snd (load_token env (mounted cfg store))) =
       (if getItem_rejects env then [WarnErrorLoadingToken] else [])
   \<and> authState (snd (load_token env (mounted cfg store))) =
       authState (snd (load_token env (mounted cfg' store)))"
proof (intro conjI impI)
  assume "TENANT_ID cfg = None \<or> TENANT_ID cfg = Some []"
  then show "network (snd (load_token env (mounted cfg store))) = [Discovery ''undefined'']"
    by (auto simp add: load_token_trace mounted_def discovery_issuer_def)
next
  assume c: "CLIENT_ID cfg = None"
  then show "clientId (authRequestConfig cfg redirect) = []"
    by (simp add: authRequestConfig_def)
  from c show "exchange_clientId (exchangeConfig cfg code req redirect) = []"
    by (simp add: exchangeConfig_def)
next
  assume c: "CLIENT_ID cfg = None \<and> result_type r = ''success''"
  have "take (Suc (length (network w)))
      (network (snd (exchange_and_store cfg env (params_code r) d req redirect w)))
      = network w @ [TokenExchange (exchangeConfig cfg (params_code r) req redirect) d]"
    by (simp add: exchange_and_store_def setItemAsync_def Let_def
        split: settled.splits option.splits parsed_body.splits)
  with c show "take (Suc (length (network w)))
        (network (snd (handle_response cfg env (Some r) (Some d) req redirect w)))
      = network w @ [TokenExchange (exchangeConfig cfg (params_code r) req redirect) d]"
    by (simp add: handle_response_def snd_catch split: settled.splits)
next
  show "fst (load_token env (mounted cfg store)) = Resolves ()"
    by (rule load_token_resolves)
  show "loading (snd (load_token env (mounted cfg store))) = False"
    by (rule load_token_trace)
  show "console (snd (load_token env (mounted cfg store))) =
       (if getItem_rejects env then [WarnErrorLoadingToken] else [])"
    by (simp add: load_token_def getItemAsync_def Let_def mounted_def split: option.splits)
  show "authState (snd (load_token env (mounted cfg store))) =
       authState (snd (load_token env (mounted cfg' store)))"
    by (simp add: load_token_authState mounted_def split: option.splits)
qed

text \<open>Both identifiers absent at startup, with an empty store; and the client identifier
  absent when a success response arrives.\<close>

theorem absent_config_is_deferred_witness:
  "TENANT_ID cfg_absent = None
   \<and> network (snd (load_token platform_ok (mounted cfg_absent Map.empty)))
       = [Discovery ''undefined'']
   \<and> fst (load_token platform_ok (mounted cfg_absent Map.empty)) = Resolves ()
   \<and> loading (snd (load_token platform_ok (mounted cfg_absent Map.empty))) = False
   \<and> console (snd (load_token platform_ok (mounted cfg_absent Map.empty))) = []
   \<and> CLIENT_ID cfg_no_client = None
   \<and> result_type success0 = ''success''
   \<and> clientId (authRequestConfig cfg_no_client redirect0) = []
   \<and> take (Suc (length (network signed_out)))
        (network (snd (handle_response cfg_no_client platform_ok (Some success0) (Some disc0)
                         (Some req0) redirect0 signed_out)))
       = [Discovery ''https://login.microsoftonline.com/contoso/v2.0'',
          TokenExchange
            \<lparr>exchange_clientId = [], exchange_code = ''code-1'',
             exchange_redirectUri = ''exp://127.0.0.1:8081'', code_verifier = ''verifier-1''\<rparr>
            disc0]"
proof -
  note T1 = absent_config_is_deferred
    [where cfg = cfg_absent and env = platform_ok and store = Map.empty]
  note T2 = absent_config_is_deferred
    [where cfg = cfg_no_client and env = platform_ok and redirect = redirect0
       and req = "Some req0" and r = success0 and w = signed_out and d = disc0]
  have h: "TENANT_ID cfg_absent = None" "CLIENT_ID cfg_no_client = None"
    "result_type success0 = ''success''"
    by (simp_all add: cfg_absent_def cfg_no_client_def success0_def)
  from T1 h(1) have c1:
    "network (snd (load_token platform_ok (mounted cfg_absent Map.empty)))
       = [Discovery ''undefined'']"
    "fst (load_token platform_ok (mounted cfg_absent Map.empty)) = Resolves ()"
    "loading (snd (load_token platform_ok (mounted cfg_absent Map.empty))) = False"
    "console (snd (load_token platform_ok (mounted cfg_absent Map.empty))) =
       (if getItem_rejects platform_ok then [WarnErrorLoadingToken] else [])"
    by blast+
  from T2 h(2,3) have c2:
    "clientId (authRequestConfig cfg_no_client redirect0) = []"
    "take (Suc (length (network signed_out)))
        (network (snd (handle_response cfg_no_client platform_ok (Some success0) (Some disc0)
                         (Some req0) redirect0 signed_out)))
       = network signed_out @
           [TokenExchange (exchangeConfig cfg_no_client (params_code success0) (Some req0) redirect0)
              disc0]"
    by blast+
  have e: "network signed_out @
           [TokenExchange (exchangeConfig cfg_no_client (params_code success0) (Some req0) redirect0)
              disc0]
       = [Discovery ''https://login.microsoftonline.com/contoso/v2.0'',
          TokenExchange
            \<lparr>exchange_clientId = [], exchange_code = ''code-1'',
             exchange_redirectUri = ''exp://127.0.0.1:8081'', code_verifier = ''verifier-1''\<rparr>
            disc0]"
    by (simp add: exchangeConfig_def example_defs)
  have g: "\<not> getItem_rejects platform_ok"
    by (simp add: platform_ok_def)
  show ?thesis
    using h c1(1,2,3) c1(4) g c2(1) c2(2) [unfolded e] by simp
qed

text \<open>
  C5 as stated fails. With both identifiers absent the startup resolves and logs nothing,
  the session is \<open>Unauthenticated\<close>, and discovery has been requested for \<open>undefined\<close>.
  The failure comes later: the automatic sign-in finds no request (none is made without
  discovery) and logs that the request is not ready.
\<close>

theorem absent_config_starts_normally:
  "fst (load_token platform_ok (mounted cfg_absent Map.empty)) = Resolves ()
   \<and> session (snd (load_token platform_ok (mounted cfg_absent Map.empty))) = Unauthenticated
   \<and> console (snd (load_token platform_ok (mounted cfg_absent Map.empty))) = []
   \<and> network (snd (load_token platform_ok (mounted cfg_absent Map.empty)))
       = [Discovery ''undefined'']
   \<and> console (run cfg_absent
        [\<lparr>happening = LoadToken platform_ok, gate_env = platform_ok, gate_request = None\<rparr>]
        (mounted cfg_absent Map.empty)) = [WarnAuthRequestNotReady]"
  by (simp add: run_def step_def load_token_def getItemAsync_def Let_def auth_gate_effect_def
      signIn_def session_def mounted_def discovery_issuer_def cfg_absent_def platform_ok_def)

subsection \<open>Automatic sign-in\<close>

















end
